theory Spec2Isabelle
  imports Main "HOL-Library.Sublist"
begin

section \<open>Python values\<close>

subsection \<open>Strings\<close>

text \<open>
  A Python \<^verbatim>\<open>str\<close> is a sequence of Unicode code points and \<^verbatim>\<open>len\<close> counts code
  points, so a string is modelled as the list of its code points. \<open>lit\<close> embeds an
  ASCII literal; the non-ASCII characters of the source are written by code point.
\<close>

type_synonym ustr = "nat list"

definition lit :: "string \<Rightarrow> ustr" where
  "lit s = map of_char s"

definition nl :: ustr where
  "nl = [10]"

definition quote :: ustr where
  "quote = [39]"

definition backtick :: ustr where
  "backtick = [96]"

text \<open>U+2B50, U+2705, U+1F5D1 U+FE0F, U+1F534, U+1F7E0, U+1F535, U+2192.\<close>

definition star :: ustr where
  "star = [11088]"

definition check_mark :: ustr where
  "check_mark = [9989]"

definition wastebasket :: ustr where
  "wastebasket = [128465, 65039]"

definition red_circle :: ustr where
  "red_circle = [128308]"

definition orange_circle :: ustr where
  "orange_circle = [128992]"

definition blue_circle :: ustr where
  "blue_circle = [128309]"

definition arrow :: ustr where
  "arrow = [8594]"

text \<open>\<^verbatim>\<open>str(n)\<close> of an integer: its decimal digits, with a sign when negative.\<close>

fun str_nat :: "nat \<Rightarrow> ustr" where
  "str_nat n = (if n < 10 then [48 + n] else str_nat (n div 10) @ [48 + n mod 10])"

declare str_nat.simps [simp del]

definition str_int :: "int \<Rightarrow> ustr" where
  "str_int i = (if i < 0 then lit ''-'' @ str_nat (nat (- i)) else str_nat (nat i))"

text \<open>\<^verbatim>\<open>sep.join(xs)\<close> on a list of strings.\<close>

fun join :: "ustr \<Rightarrow> ustr list \<Rightarrow> ustr" where
  "join sep [] = []"
| "join sep [x] = x"
| "join sep (x # y # ys) = x @ sep @ join sep (y # ys)"

text \<open>\<^verbatim>\<open>xs[:n]\<close>: a negative bound counts from the end.\<close>

definition slice_to :: "int \<Rightarrow> 'a list \<Rightarrow> 'a list" where
  "slice_to n xs = (if 0 \<le> n then take (nat n) xs else take (length xs - nat (- n)) xs)"

text \<open>
  The input models set \<^verbatim>\<open>str_strip_whitespace=True\<close>: the validator trims the characters
  with the Unicode property White_Space from both ends of every string field before it
  checks the length constraints.
\<close>

definition white_space :: "nat \<Rightarrow> bool" where
  "white_space c \<longleftrightarrow>
     (9 \<le> c \<and> c \<le> 13) \<or> c = 32 \<or> c = 133 \<or> c = 160 \<or> c = 5760 \<or>
     (8192 \<le> c \<and> c \<le> 8202) \<or> c = 8232 \<or> c = 8233 \<or> c = 8239 \<or> c = 8287 \<or> c = 12288"

definition strip :: "ustr \<Rightarrow> ustr" where
  "strip s = rev (dropWhile white_space (rev (dropWhile white_space s)))"

subsection \<open>Decoded JSON\<close>

text \<open>
  What \<^verbatim>\<open>response.json()\<close> returns, and what the request bodies are built from: \<open>JNull\<close>
  is Python's \<^verbatim>\<open>None\<close>, a \<open>JObj\<close> is a \<^verbatim>\<open>dict\<close> given by its items in insertion order
  (a lookup takes the first item with the key; the keys of a Python dict are distinct).
  Floating-point numbers are left out.
\<close>

datatype json =
  JNull
| JBool bool
| JInt int
| JStr ustr
| JList "json list"
| JObj "(ustr \<times> json) list"

fun truthy :: "json \<Rightarrow> bool" where
  "truthy JNull = False"
| "truthy (JBool b) = b"
| "truthy (JInt i) = (i \<noteq> 0)"
| "truthy (JStr s) = (s \<noteq> [])"
| "truthy (JList xs) = (xs \<noteq> [])"
| "truthy (JObj d) = (d \<noteq> [])"

fun type_name :: "json \<Rightarrow> ustr" where
  "type_name JNull = lit ''NoneType''"
| "type_name (JBool b) = lit ''bool''"
| "type_name (JInt i) = lit ''int''"
| "type_name (JStr s) = lit ''str''"
| "type_name (JList xs) = lit ''list''"
| "type_name (JObj d) = lit ''dict''"

subsection \<open>Exceptions\<close>

text \<open>
  The exception classes that \<^verbatim>\<open>_handle_api_error\<close> tells apart. \<open>ValueError\<close> stands for
  the class and its subclasses (a JSON decoding error is one); \<open>OtherException\<close> carries
  \<^verbatim>\<open>type(e).__name__\<close> and \<^verbatim>\<open>str(e)\<close> of any other exception.
\<close>

datatype exn =
  HTTPStatusError int
| TimeoutException
| ValueError ustr
| OtherException ustr ustr

text \<open>The exceptions the interpreter raises on a value of the wrong shape (CPython 3.12 wording).\<close>

definition key_error :: "ustr \<Rightarrow> exn" where
  "key_error k = OtherException (lit ''KeyError'') (quote @ k @ quote)"

definition type_error :: "ustr \<Rightarrow> exn" where
  "type_error msg = OtherException (lit ''TypeError'') msg"

definition attribute_error :: "json \<Rightarrow> ustr \<Rightarrow> exn" where
  "attribute_error v a =
     OtherException (lit ''AttributeError'')
       (quote @ type_name v @ quote @ lit '' object has no attribute '' @ quote @ a @ quote)"

definition not_subscriptable :: "json \<Rightarrow> exn" where
  "not_subscriptable v = type_error (quote @ type_name v @ quote @ lit '' object is not subscriptable'')"

definition then_do :: "exn + 'a \<Rightarrow> ('a \<Rightarrow> exn + 'b) \<Rightarrow> exn + 'b" where
  "then_do m f = (case m of Inl e \<Rightarrow> Inl e | Inr x \<Rightarrow> f x)"

subsection \<open>Operations on decoded values\<close>

text \<open>\<^verbatim>\<open>v.get(k)\<close> and \<^verbatim>\<open>v.get(k, default)\<close>: only a dict has the method.\<close>

definition py_get_default :: "json \<Rightarrow> ustr \<Rightarrow> json \<Rightarrow> exn + json" where
  "py_get_default v k dflt =
     (case v of
        JObj d \<Rightarrow> Inr (case map_of d k of None \<Rightarrow> dflt | Some x \<Rightarrow> x)
      | _ \<Rightarrow> Inl (attribute_error v (lit ''get'')))"

definition py_get :: "json \<Rightarrow> ustr \<Rightarrow> exn + json" where
  "py_get v k = py_get_default v k JNull"

text \<open>\<^verbatim>\<open>v[k]\<close> with a string key.\<close>

definition py_getitem :: "json \<Rightarrow> ustr \<Rightarrow> exn + json" where
  "py_getitem v k =
     (case v of
        JObj d \<Rightarrow> (case map_of d k of None \<Rightarrow> Inl (key_error k) | Some x \<Rightarrow> Inr x)
      | JList xs \<Rightarrow> Inl (type_error (lit ''list indices must be integers or slices, not str''))
      | JStr s \<Rightarrow>
          Inl (type_error (lit ''string indices must be integers, not '' @ quote @ lit ''str'' @ quote))
      | _ \<Rightarrow> Inl (not_subscriptable v))"

text \<open>\<^verbatim>\<open>for x in v\<close>: a dict yields its keys, a string its characters.\<close>

definition py_iter :: "json \<Rightarrow> exn + json list" where
  "py_iter v =
     (case v of
        JList xs \<Rightarrow> Inr xs
      | JObj d \<Rightarrow> Inr (map (\<lambda>kv. JStr (fst kv)) d)
      | JStr s \<Rightarrow> Inr (map (\<lambda>c. JStr [c]) s)
      | _ \<Rightarrow> Inl (type_error (quote @ type_name v @ quote @ lit '' object is not iterable'')))"

definition py_len :: "json \<Rightarrow> exn + nat" where
  "py_len v =
     (case v of
        JList xs \<Rightarrow> Inr (length xs)
      | JObj d \<Rightarrow> Inr (length d)
      | JStr s \<Rightarrow> Inr (length s)
      | _ \<Rightarrow> Inl (type_error (lit ''object of type '' @ quote @ type_name v @ quote @ lit '' has no len()'')))"

text \<open>\<^verbatim>\<open>v[:n]\<close>: a dict takes the slice for a key and does not have it.\<close>

definition py_slice_to :: "json \<Rightarrow> int \<Rightarrow> exn + json" where
  "py_slice_to v n =
     (case v of
        JList xs \<Rightarrow> Inr (JList (slice_to n xs))
      | JStr s \<Rightarrow> Inr (JStr (slice_to n s))
      | JObj d \<Rightarrow>
          Inl (OtherException (lit ''KeyError'') (lit ''slice(None, '' @ str_int n @ lit '', None)''))
      | _ \<Rightarrow> Inl (not_subscriptable v))"

text \<open>
  \<^verbatim>\<open>sep.join(v)\<close>: the argument must be iterable and each of its items a string; the
  first item that is not one is reported with its position.
\<close>

fun str_items :: "nat \<Rightarrow> json list \<Rightarrow> exn + ustr list" where
  "str_items i [] = Inr []"
| "str_items i (x # xs) =
     (case x of
        JStr s \<Rightarrow> then_do (str_items (Suc i) xs) (\<lambda>rest. Inr (s # rest))
      | _ \<Rightarrow>
          Inl (type_error (lit ''sequence item '' @ str_nat i @ lit '': expected str instance, ''
                           @ type_name x @ lit '' found'')))"

definition py_join :: "ustr \<Rightarrow> json \<Rightarrow> exn + ustr" where
  "py_join sep v =
     (case py_iter v of
        Inl e \<Rightarrow> Inl (type_error (lit ''can only join an iterable''))
      | Inr items \<Rightarrow> then_do (str_items 0 items) (\<lambda>strs. Inr (join sep strs)))"

section \<open>Constants and enumerations\<close>

definition API_BASE_URL :: ustr where
  "API_BASE_URL = lit ''https://api.todoist.com/rest/v2''"

definition CHARACTER_LIMIT :: nat where
  "CHARACTER_LIMIT = 25000"

datatype ResponseFormat = MARKDOWN | JSON

datatype TaskPriority = P1 | P2 | P3 | P4

fun priority_value :: "TaskPriority \<Rightarrow> int" where
  "priority_value P1 = 1"
| "priority_value P2 = 2"
| "priority_value P3 = 3"
| "priority_value P4 = 4"

section \<open>The outside world\<close>

text \<open>
  One HTTP exchange: the arguments of \<^verbatim>\<open>client.request\<close> and what comes back, the status
  code and the outcome of \<^verbatim>\<open>response.json()\<close> (which raises on a body that is not JSON).
\<close>

record request =
  req_method :: ustr
  req_url :: ustr
  req_headers :: "(ustr \<times> ustr) list"
  req_json :: "(ustr \<times> json) list option"
  req_params :: "(ustr \<times> ustr) list option"
  req_timeout :: nat

record response =
  status_code :: int
  json_result :: "exn + json"

text \<open>
  Everything the program reads from outside itself: the process environment, the remote
  service behind \<^verbatim>\<open>client.request\<close> (which raises on a transport failure), and the two
  library renderings whose text the program passes on, \<^verbatim>\<open>json.dumps(v, indent=2)\<close> and the
  \<^verbatim>\<open>str\<close> of a list or dict.
\<close>

record world =
  environ :: "ustr \<Rightarrow> ustr option"
  client_request :: "request \<Rightarrow> exn + response"
  json_dumps :: "json \<Rightarrow> ustr"
  py_repr :: "json \<Rightarrow> ustr"

text \<open>\<^verbatim>\<open>str(v)\<close>, as an f-string formats a value.\<close>

definition py_str :: "world \<Rightarrow> json \<Rightarrow> ustr" where
  "py_str w v =
     (case v of
        JStr s \<Rightarrow> s
      | JInt i \<Rightarrow> str_int i
      | JBool b \<Rightarrow> (if b then lit ''True'' else lit ''False'')
      | JNull \<Rightarrow> lit ''None''
      | _ \<Rightarrow> py_repr w v)"

text \<open>The integer a value is equal to, if any: \<^verbatim>\<open>True == 1\<close> and \<^verbatim>\<open>False == 0\<close>.\<close>

fun int_key :: "json \<Rightarrow> int option" where
  "int_key (JInt i) = Some i"
| "int_key (JBool b) = Some (if b then 1 else 0)"
| "int_key v = None"

section \<open>Shared utilities\<close>

definition token_missing :: ustr where
  "token_missing =
     lit ''TODOIST_API_TOKEN environment variable not set. ''
     @ lit ''Get your token from: Todoist Settings '' @ arrow @ lit '' Integrations ''
     @ arrow @ lit '' Developer '' @ arrow @ lit '' API token''"

definition get_api_token :: "world \<Rightarrow> exn + ustr" where
  "get_api_token w =
     (case environ w (lit ''TODOIST_API_TOKEN'') of
        None \<Rightarrow> Inl (ValueError token_missing)
      | Some token \<Rightarrow> if token = [] then Inl (ValueError token_missing) else Inr token)"

text \<open>\<^verbatim>\<open>raise_for_status\<close> raises unless the status is a 2xx.\<close>

definition is_success :: "int \<Rightarrow> bool" where
  "is_success s \<longleftrightarrow> 200 \<le> s \<and> s \<le> 299"

text \<open>
  \<^verbatim>\<open>_make_api_request\<close> returns its result, or the exception it raised, together with the
  requests that went to \<^verbatim>\<open>client.request\<close>: none when the token is missing, one otherwise.
\<close>

definition make_api_request ::
  "world \<Rightarrow> ustr \<Rightarrow> ustr \<Rightarrow> (ustr \<times> json) list option \<Rightarrow> (ustr \<times> ustr) list option
   \<Rightarrow> (exn + json) \<times> request list" where
  "make_api_request w endpoint meth json_data query =
     (case get_api_token w of
        Inl e \<Rightarrow> (Inl e, [])
      | Inr token \<Rightarrow>
          (let rq = \<lparr>req_method = meth,
                     req_url = API_BASE_URL @ lit ''/'' @ endpoint,
                     req_headers = [(lit ''Authorization'', lit ''Bearer '' @ token),
                                    (lit ''Content-Type'', lit ''application/json'')],
                     req_json = json_data,
                     req_params = query,
                     req_timeout = 30\<rparr>
           in ((case client_request w rq of
                  Inl e \<Rightarrow> Inl e
                | Inr r \<Rightarrow>
                    if \<not> is_success (status_code r) then Inl (HTTPStatusError (status_code r))
                    else if status_code r = 204 then Inr JNull
                    else json_result r),
               [rq])))"

fun handle_api_error :: "exn \<Rightarrow> ustr" where
  "handle_api_error (HTTPStatusError status) =
     (if status = 400 then lit ''Error: Invalid request. Check your parameters are correct.''
      else if status = 401 then lit ''Error: Invalid API token. Check TODOIST_API_TOKEN is correct.''
      else if status = 403 then
        lit ''Error: Permission denied. You may not have access to this resource.''
      else if status = 404 then lit ''Error: Resource not found. Check the ID is correct.''
      else if status = 429 then
        lit ''Error: Rate limit exceeded. Please wait before making more requests.''
      else if status \<ge> 500 then lit ''Error: Todoist server error. Please try again later.''
      else lit ''Error: API request failed with status '' @ str_int status)"
| "handle_api_error TimeoutException = lit ''Error: Request timed out. Please try again.''"
| "handle_api_error (ValueError msg) = lit ''Error: '' @ msg"
| "handle_api_error (OtherException cls msg) = lit ''Error: '' @ cls @ lit '': '' @ msg"

text \<open>
  \<^verbatim>\<open>_format_due\<close> returns the value it picked; the caller's f-string turns it into text.
\<close>

definition format_due :: "world \<Rightarrow> json \<Rightarrow> exn + json" where
  "format_due w due =
     (if \<not> truthy due then Inr (JStr (lit ''No due date''))
      else
        then_do (py_get_default due (lit ''date'') (JStr [])) (\<lambda>date_str.
        then_do (py_get due (lit ''datetime'')) (\<lambda>dt.
          if truthy dt then py_getitem due (lit ''datetime'')
          else
            then_do (py_get due (lit ''string'')) (\<lambda>s.
              if truthy s then
                then_do (py_getitem due (lit ''string'')) (\<lambda>s'.
                  Inr (JStr (py_str w s' @ lit '' ('' @ py_str w date_str @ lit '')'')))
              else Inr date_str))))"

text \<open>
  \<^verbatim>\<open>labels.get(priority, str(priority))\<close>: the lookup hashes its key, which a list or a
  dict does not allow.
\<close>

definition priority_label :: "world \<Rightarrow> json \<Rightarrow> exn + ustr" where
  "priority_label w prio =
     (case prio of
        JList xs \<Rightarrow> Inl (type_error (lit ''unhashable type: '' @ quote @ lit ''list'' @ quote))
      | JObj d \<Rightarrow> Inl (type_error (lit ''unhashable type: '' @ quote @ lit ''dict'' @ quote))
      | _ \<Rightarrow>
          Inr (if int_key prio = Some 1 then lit ''P4 (lowest)''
               else if int_key prio = Some 2 then lit ''P3''
               else if int_key prio = Some 3 then lit ''P2''
               else if int_key prio = Some 4 then lit ''P1 (highest)''
               else py_str w prio))"

definition truncation_notice :: "nat \<Rightarrow> ustr" where
  "truncation_notice item_count =
     nl @ nl @ lit ''---'' @ nl @ lit ''**Response truncated** ('' @ str_nat item_count
     @ lit '' items). Use filters to narrow results.''"

definition truncate_response :: "ustr \<Rightarrow> nat \<Rightarrow> ustr" where
  "truncate_response result item_count =
     (if length result > CHARACTER_LIMIT then
        take (CHARACTER_LIMIT - 200) result @ truncation_notice item_count
      else result)"

section \<open>Input models\<close>

text \<open>
  The validated parameter objects the tool handlers receive. An \<^verbatim>\<open>Optional[str]\<close> field is
  a \<open>ustr option\<close>; \<open>filter_query\<close> is the field \<^verbatim>\<open>filter\<close>.
\<close>

record ListProjectsInput =
  response_format :: ResponseFormat

record GetProjectInput =
  project_id :: ustr
  response_format :: ResponseFormat

record CreateProjectInput =
  name :: ustr
  parent_id :: "ustr option"
  color :: "ustr option"
  is_favorite :: bool

record ListTasksInput =
  project_id :: "ustr option"
  label :: "ustr option"
  filter_query :: "ustr option"
  limit :: int
  response_format :: ResponseFormat

record GetTaskInput =
  task_id :: ustr
  response_format :: ResponseFormat

record CreateTaskInput =
  content :: ustr
  description :: "ustr option"
  project_id :: "ustr option"
  due_string :: "ustr option"
  due_date :: "ustr option"
  priority :: "TaskPriority option"
  labels :: "ustr list option"
  parent_id :: "ustr option"

record UpdateTaskInput =
  task_id :: ustr
  content :: "ustr option"
  description :: "ustr option"
  due_string :: "ustr option"
  due_date :: "ustr option"
  priority :: "TaskPriority option"
  labels :: "ustr list option"

record CompleteTaskInput =
  task_id :: ustr

record ReopenTaskInput =
  task_id :: ustr

record DeleteTaskInput =
  task_id :: ustr

record ListLabelsInput =
  response_format :: ResponseFormat

record CreateLabelInput =
  name :: ustr
  color :: "ustr option"
  is_favorite :: bool

text \<open>The Python value of an optional field, for its truth test and for the request body.\<close>

definition opt_str :: "ustr option \<Rightarrow> json" where
  "opt_str v = (case v of None \<Rightarrow> JNull | Some s \<Rightarrow> JStr s)"

definition opt_strs :: "ustr list option \<Rightarrow> json" where
  "opt_strs v = (case v of None \<Rightarrow> JNull | Some xs \<Rightarrow> JList (map JStr xs))"

definition opt_priority :: "TaskPriority option \<Rightarrow> json" where
  "opt_priority v = (case v of None \<Rightarrow> JNull | Some pr \<Rightarrow> JInt (priority_value pr))"

text \<open>\<^verbatim>\<open>if c: data[k] = v\<close> on a dict that has no key \<open>k\<close> yet.\<close>

definition set_if :: "bool \<Rightarrow> ustr \<Rightarrow> json \<Rightarrow> (ustr \<times> json) list" where
  "set_if c k v = (if c then [(k, v)] else [])"

definition query_if :: "ustr \<Rightarrow> ustr option \<Rightarrow> (ustr \<times> ustr) list" where
  "query_if k v = (case v of None \<Rightarrow> [] | Some s \<Rightarrow> if s = [] then [] else [(k, s)])"

section \<open>Tool handlers\<close>

text \<open>
  Every handler is \<^verbatim>\<open>try: ... except Exception as e: return _handle_api_error(e)\<close>:
  the body of the \<^verbatim>\<open>try\<close> is the handler's \<open>_try\<close> function, which returns a string or
  the exception it raised, and \<open>except_exception\<close> is the \<^verbatim>\<open>except\<close> clause. A handler
  returns its string together with the requests it sent.
\<close>

definition caught :: "exn + ustr \<Rightarrow> ustr" where
  "caught r = (case r of Inl e \<Rightarrow> handle_api_error e | Inr s \<Rightarrow> s)"

definition except_exception :: "(exn + ustr) \<times> request list \<Rightarrow> ustr \<times> request list" where
  "except_exception outcome = (caught (fst outcome), snd outcome)"

text \<open>A loop that appends lines for each item and stops at the first exception.\<close>

fun collect :: "('a \<Rightarrow> exn + 'b list) \<Rightarrow> 'a list \<Rightarrow> exn + 'b list" where
  "collect f [] = Inr []"
| "collect f (x # xs) =
     (case f x of
        Inl e \<Rightarrow> Inl e
      | Inr ls \<Rightarrow> (case collect f xs of Inl e \<Rightarrow> Inl e | Inr rest \<Rightarrow> Inr (ls @ rest)))"

subsection \<open>Projects\<close>

definition project_lines :: "world \<Rightarrow> json \<Rightarrow> exn + ustr list" where
  "project_lines w p =
     then_do (py_get p (lit ''is_favorite'')) (\<lambda>fav.
     then_do (py_get p (lit ''parent_id'')) (\<lambda>par.
     then_do (py_getitem p (lit ''name'')) (\<lambda>nm.
     then_do (py_getitem p (lit ''id'')) (\<lambda>i.
     then_do (py_get p (lit ''comment_count'')) (\<lambda>cc.
       let favorite = (if truthy fav then lit '' '' @ star else []);
           indent = (if truthy par then lit ''  '' else []);
           line = indent @ lit ''- **'' @ py_str w nm @ lit ''**'' @ favorite
                  @ lit '' (ID: '' @ backtick @ py_str w i @ backtick @ lit '')''
       in if truthy cc then
            then_do (py_getitem p (lit ''comment_count'')) (\<lambda>c.
              Inr [line, indent @ lit ''  - '' @ py_str w c @ lit '' comments''])
          else Inr [line])))))"

definition render_projects :: "world \<Rightarrow> ResponseFormat \<Rightarrow> json \<Rightarrow> exn + ustr" where
  "render_projects w fmt projects =
     (if \<not> truthy projects then Inr (lit ''No projects found.'')
      else if fmt = JSON then Inr (json_dumps w projects)
      else
        then_do (py_iter projects) (\<lambda>ps.
        then_do (collect (project_lines w) ps) (\<lambda>body.
        then_do (py_len projects) (\<lambda>n.
          Inr (truncate_response (join nl ([lit ''# Todoist Projects'', []] @ body)) n)))))"

definition list_projects_try :: "world \<Rightarrow> ListProjectsInput \<Rightarrow> (exn + ustr) \<times> request list" where
  "list_projects_try w p =
     (case make_api_request w (lit ''projects'') (lit ''GET'') None None of
        (res, sent) \<Rightarrow>
          (then_do res (render_projects w (ListProjectsInput.response_format p)), sent))"

definition todoist_list_projects :: "world \<Rightarrow> ListProjectsInput \<Rightarrow> ustr \<times> request list" where
  "todoist_list_projects w p = except_exception (list_projects_try w p)"

definition yes_no :: "json \<Rightarrow> ustr" where
  "yes_no v = (if truthy v then lit ''Yes'' else lit ''No'')"

definition render_project :: "world \<Rightarrow> ResponseFormat \<Rightarrow> json \<Rightarrow> exn + ustr" where
  "render_project w fmt project =
     (if fmt = JSON then Inr (json_dumps w project)
      else
        then_do (py_getitem project (lit ''name'')) (\<lambda>nm.
        then_do (py_getitem project (lit ''id'')) (\<lambda>i.
        then_do (py_get_default project (lit ''color'') (JStr (lit ''default''))) (\<lambda>col.
        then_do (py_get project (lit ''is_favorite'')) (\<lambda>fav.
        then_do (py_get project (lit ''is_shared'')) (\<lambda>shared.
        then_do (py_get_default project (lit ''comment_count'') (JInt 0)) (\<lambda>cc.
        then_do (py_get project (lit ''parent_id'')) (\<lambda>par.
        then_do (if truthy par then
                   then_do (py_getitem project (lit ''parent_id'')) (\<lambda>par'.
                     Inr [lit ''- **Parent Project**: '' @ backtick @ py_str w par' @ backtick])
                 else Inr []) (\<lambda>parent_line.
          Inr (join nl
                 ([lit ''# '' @ py_str w nm,
                   [],
                   lit ''- **ID**: '' @ backtick @ py_str w i @ backtick,
                   lit ''- **Color**: '' @ py_str w col,
                   lit ''- **Favorite**: '' @ yes_no fav,
                   lit ''- **Shared**: '' @ yes_no shared,
                   lit ''- **Comments**: '' @ py_str w cc]
                  @ parent_line)))))))))))"

definition get_project_try :: "world \<Rightarrow> GetProjectInput \<Rightarrow> (exn + ustr) \<times> request list" where
  "get_project_try w p =
     (case make_api_request w (lit ''projects/'' @ GetProjectInput.project_id p) (lit ''GET'')
             None None of
        (res, sent) \<Rightarrow>
          (then_do res (render_project w (GetProjectInput.response_format p)), sent))"

definition todoist_get_project :: "world \<Rightarrow> GetProjectInput \<Rightarrow> ustr \<times> request list" where
  "todoist_get_project w p = except_exception (get_project_try w p)"

definition create_project_data :: "CreateProjectInput \<Rightarrow> (ustr \<times> json) list" where
  "create_project_data p =
     [(lit ''name'', JStr (CreateProjectInput.name p))]
     @ set_if (truthy (opt_str (CreateProjectInput.parent_id p))) (lit ''parent_id'')
         (opt_str (CreateProjectInput.parent_id p))
     @ set_if (truthy (opt_str (CreateProjectInput.color p))) (lit ''color'')
         (opt_str (CreateProjectInput.color p))
     @ set_if (CreateProjectInput.is_favorite p) (lit ''is_favorite'')
         (JBool (CreateProjectInput.is_favorite p))"

definition created :: "world \<Rightarrow> ustr \<Rightarrow> ustr \<Rightarrow> json \<Rightarrow> exn + ustr" where
  "created w kind key v =
     then_do (py_getitem v key) (\<lambda>nm.
     then_do (py_getitem v (lit ''id'')) (\<lambda>i.
       Inr (check_mark @ lit '' Created '' @ kind @ lit '' **'' @ py_str w nm @ lit ''** (ID: ''
            @ backtick @ py_str w i @ backtick @ lit '')'')))"

definition create_project_try :: "world \<Rightarrow> CreateProjectInput \<Rightarrow> (exn + ustr) \<times> request list" where
  "create_project_try w p =
     (case make_api_request w (lit ''projects'') (lit ''POST'') (Some (create_project_data p))
             None of
        (res, sent) \<Rightarrow>
          (then_do res (created w (lit ''project'') (lit ''name'')), sent))"

definition todoist_create_project :: "world \<Rightarrow> CreateProjectInput \<Rightarrow> ustr \<times> request list" where
  "todoist_create_project w p = except_exception (create_project_try w p)"

subsection \<open>Tasks\<close>

definition priority_marker :: "json \<Rightarrow> ustr" where
  "priority_marker pr =
     (if int_key pr = Some 4 then red_circle
      else if int_key pr = Some 3 then orange_circle
      else if int_key pr = Some 2 then blue_circle
      else [])"

text \<open>\<^verbatim>\<open>v + "..."\<close> on the result of a slice.\<close>

definition add_ellipsis :: "json \<Rightarrow> exn + json" where
  "add_ellipsis v =
     (case v of
        JStr s \<Rightarrow> Inr (JStr (s @ lit ''...''))
      | JList xs \<Rightarrow>
          Inl (type_error (lit ''can only concatenate list (not '' @ [34] @ lit ''str'' @ [34]
                           @ lit '') to list''))
      | _ \<Rightarrow>
          Inl (type_error (lit ''unsupported operand type(s) for +: '' @ quote @ type_name v
                           @ quote @ lit '' and '' @ quote @ lit ''str'' @ quote)))"

text \<open>
  The description shown by the list view:
  \<^verbatim>\<open>t["description"][:200] + "..." if len(t.get("description", "")) > 200 else t["description"]\<close>
\<close>

definition list_description :: "json \<Rightarrow> exn + json" where
  "list_description d =
     then_do (py_len d) (\<lambda>n.
       if n > 200 then then_do (py_slice_to d 200) add_ellipsis else Inr d)"

definition or_none :: "ustr \<Rightarrow> ustr" where
  "or_none s = (if s = [] then lit ''none'' else s)"

definition task_lines :: "world \<Rightarrow> json \<Rightarrow> exn + ustr list" where
  "task_lines w t =
     then_do (py_get t (lit ''priority'')) (\<lambda>pr.
     then_do (py_get t (lit ''due'')) (\<lambda>du.
     then_do (format_due w du) (\<lambda>due.
     then_do (py_get_default t (lit ''labels'') (JList [])) (\<lambda>lb.
     then_do (py_join (lit '', '') lb) (\<lambda>joined.
     then_do (py_getitem t (lit ''content'')) (\<lambda>c.
     then_do (py_getitem t (lit ''id'')) (\<lambda>i.
     then_do (py_get_default t (lit ''priority'') (JInt 1)) (\<lambda>pr1.
     then_do (priority_label w pr1) (\<lambda>plabel.
     then_do (py_get t (lit ''description'')) (\<lambda>d.
     then_do (if truthy d then
                then_do (list_description d) (\<lambda>desc.
                  Inr [lit ''- **Description**: '' @ py_str w desc])
              else Inr []) (\<lambda>description_line.
       Inr ([lit ''### '' @ priority_marker pr @ lit '' '' @ py_str w c,
             lit ''- **ID**: '' @ backtick @ py_str w i @ backtick,
             lit ''- **Due**: '' @ py_str w due,
             lit ''- **Priority**: '' @ plabel,
             lit ''- **Labels**: '' @ or_none joined]
            @ description_line @ [[]]))))))))))))"

definition render_tasks :: "world \<Rightarrow> ResponseFormat \<Rightarrow> int \<Rightarrow> json \<Rightarrow> exn + ustr" where
  "render_tasks w fmt lim tasks =
     (if \<not> truthy tasks then Inr (lit ''No tasks found matching your criteria.'')
      else
        then_do (py_slice_to tasks lim) (\<lambda>tasks'.
          if fmt = JSON then Inr (json_dumps w tasks')
          else
            then_do (py_len tasks') (\<lambda>n.
            then_do (py_iter tasks') (\<lambda>ts.
            then_do (collect (task_lines w) ts) (\<lambda>body.
              Inr (truncate_response
                     (join nl ([lit ''# Todoist Tasks'',
                                lit ''*Showing '' @ str_nat n @ lit '' tasks*'',
                                []] @ body))
                     n))))))"

definition list_tasks_query :: "ListTasksInput \<Rightarrow> (ustr \<times> ustr) list" where
  "list_tasks_query p =
     query_if (lit ''project_id'') (ListTasksInput.project_id p)
     @ query_if (lit ''label'') (label p)
     @ query_if (lit ''filter'') (filter_query p)"

definition list_tasks_try :: "world \<Rightarrow> ListTasksInput \<Rightarrow> (exn + ustr) \<times> request list" where
  "list_tasks_try w p =
     (case make_api_request w (lit ''tasks'') (lit ''GET'') None (Some (list_tasks_query p)) of
        (res, sent) \<Rightarrow>
          (then_do res
             (render_tasks w (ListTasksInput.response_format p) (limit p)), sent))"

definition todoist_list_tasks :: "world \<Rightarrow> ListTasksInput \<Rightarrow> ustr \<times> request list" where
  "todoist_list_tasks w p = except_exception (list_tasks_try w p)"

text \<open>
  The detail view appends the description itself to the lines; \<^verbatim>\<open>"\n".join(lines)\<close> then
  raises on a description that is not a string (it is the item at index 10).
\<close>

definition detail_description :: "json \<Rightarrow> exn + ustr list" where
  "detail_description d =
     (if truthy d then
        (case d of
           JStr s \<Rightarrow> Inr [[], lit ''## Description'', s]
         | _ \<Rightarrow>
             Inl (type_error (lit ''sequence item 10: expected str instance, '' @ type_name d
                              @ lit '' found'')))
      else Inr [])"

definition detail_lines :: "world \<Rightarrow> json \<Rightarrow> exn + ustr list" where
  "detail_lines w task =
     then_do (py_getitem task (lit ''content'')) (\<lambda>c.
     then_do (py_getitem task (lit ''id'')) (\<lambda>i.
     then_do (py_get_default task (lit ''project_id'') (JStr (lit ''Inbox''))) (\<lambda>proj.
     then_do (py_get task (lit ''due'')) (\<lambda>du.
     then_do (format_due w du) (\<lambda>due.
     then_do (py_get_default task (lit ''priority'') (JInt 1)) (\<lambda>pr.
     then_do (priority_label w pr) (\<lambda>plabel.
     then_do (py_get_default task (lit ''labels'') (JList [])) (\<lambda>lb.
     then_do (py_join (lit '', '') lb) (\<lambda>joined.
     then_do (py_get_default task (lit ''created_at'') (JStr (lit ''unknown''))) (\<lambda>cr.
     then_do (py_get task (lit ''description'')) (\<lambda>d.
     then_do (py_get task (lit ''parent_id'')) (\<lambda>par.
     then_do (if truthy par then
                then_do (py_getitem task (lit ''parent_id'')) (\<lambda>par'.
                  Inr [lit ''- **Parent Task**: '' @ backtick @ py_str w par' @ backtick])
              else Inr []) (\<lambda>parent_line.
     then_do (detail_description d) (\<lambda>description_lines.
       Inr ([lit ''# '' @ py_str w c,
             [],
             lit ''- **ID**: '' @ backtick @ py_str w i @ backtick,
             lit ''- **Project**: '' @ backtick @ py_str w proj @ backtick,
             lit ''- **Due**: '' @ py_str w due,
             lit ''- **Priority**: '' @ plabel,
             lit ''- **Labels**: '' @ or_none joined,
             lit ''- **Created**: '' @ py_str w cr]
            @ description_lines @ parent_line)))))))))))))))"

definition render_task :: "world \<Rightarrow> ResponseFormat \<Rightarrow> json \<Rightarrow> exn + ustr" where
  "render_task w fmt task =
     (if fmt = JSON then Inr (json_dumps w task)
      else then_do (detail_lines w task) (\<lambda>ls. Inr (join nl ls)))"

definition get_task_try :: "world \<Rightarrow> GetTaskInput \<Rightarrow> (exn + ustr) \<times> request list" where
  "get_task_try w p =
     (case make_api_request w (lit ''tasks/'' @ GetTaskInput.task_id p) (lit ''GET'') None None of
        (res, sent) \<Rightarrow>
          (then_do res (render_task w (GetTaskInput.response_format p)), sent))"

definition todoist_get_task :: "world \<Rightarrow> GetTaskInput \<Rightarrow> ustr \<times> request list" where
  "todoist_get_task w p = except_exception (get_task_try w p)"

definition create_task_data :: "CreateTaskInput \<Rightarrow> (ustr \<times> json) list" where
  "create_task_data p =
     [(lit ''content'', JStr (CreateTaskInput.content p))]
     @ set_if (truthy (opt_str (CreateTaskInput.description p))) (lit ''description'')
         (opt_str (CreateTaskInput.description p))
     @ set_if (truthy (opt_str (CreateTaskInput.project_id p))) (lit ''project_id'')
         (opt_str (CreateTaskInput.project_id p))
     @ (if truthy (opt_str (CreateTaskInput.due_string p)) then
          [(lit ''due_string'', opt_str (CreateTaskInput.due_string p))]
        else if truthy (opt_str (CreateTaskInput.due_date p)) then
          [(lit ''due_date'', opt_str (CreateTaskInput.due_date p))]
        else [])
     @ set_if (truthy (opt_priority (CreateTaskInput.priority p))) (lit ''priority'')
         (opt_priority (CreateTaskInput.priority p))
     @ set_if (truthy (opt_strs (CreateTaskInput.labels p))) (lit ''labels'')
         (opt_strs (CreateTaskInput.labels p))
     @ set_if (truthy (opt_str (CreateTaskInput.parent_id p))) (lit ''parent_id'')
         (opt_str (CreateTaskInput.parent_id p))"

definition created_task :: "world \<Rightarrow> json \<Rightarrow> exn + ustr" where
  "created_task w task =
     then_do (py_get task (lit ''due'')) (\<lambda>du.
     then_do (if truthy du then
                then_do (format_due w du) (\<lambda>due. Inr (lit '' due '' @ py_str w due))
              else Inr []) (\<lambda>due_info.
     then_do (py_getitem task (lit ''content'')) (\<lambda>c.
     then_do (py_getitem task (lit ''id'')) (\<lambda>i.
       Inr (check_mark @ lit '' Created task **'' @ py_str w c @ lit ''**'' @ due_info
            @ lit '' (ID: '' @ backtick @ py_str w i @ backtick @ lit '')'')))))"

definition create_task_try :: "world \<Rightarrow> CreateTaskInput \<Rightarrow> (exn + ustr) \<times> request list" where
  "create_task_try w p =
     (case make_api_request w (lit ''tasks'') (lit ''POST'') (Some (create_task_data p)) None of
        (res, sent) \<Rightarrow> (then_do res (created_task w), sent))"

definition todoist_create_task :: "world \<Rightarrow> CreateTaskInput \<Rightarrow> ustr \<times> request list" where
  "todoist_create_task w p = except_exception (create_task_try w p)"

definition update_task_data :: "UpdateTaskInput \<Rightarrow> (ustr \<times> json) list" where
  "update_task_data p =
     set_if (truthy (opt_str (UpdateTaskInput.content p))) (lit ''content'')
       (opt_str (UpdateTaskInput.content p))
     @ set_if (opt_str (UpdateTaskInput.description p) \<noteq> JNull) (lit ''description'')
         (opt_str (UpdateTaskInput.description p))
     @ (if truthy (opt_str (UpdateTaskInput.due_string p)) then
          [(lit ''due_string'', opt_str (UpdateTaskInput.due_string p))]
        else if truthy (opt_str (UpdateTaskInput.due_date p)) then
          [(lit ''due_date'', opt_str (UpdateTaskInput.due_date p))]
        else [])
     @ set_if (truthy (opt_priority (UpdateTaskInput.priority p))) (lit ''priority'')
         (opt_priority (UpdateTaskInput.priority p))
     @ set_if (opt_strs (UpdateTaskInput.labels p) \<noteq> JNull) (lit ''labels'')
         (opt_strs (UpdateTaskInput.labels p))"

definition no_fields_to_update :: ustr where
  "no_fields_to_update = lit ''Error: No fields to update. Provide at least one field to change.''"

definition updated_task :: "world \<Rightarrow> json \<Rightarrow> exn + ustr" where
  "updated_task w task =
     then_do (py_getitem task (lit ''content'')) (\<lambda>c.
     then_do (py_getitem task (lit ''id'')) (\<lambda>i.
       Inr (check_mark @ lit '' Updated task **'' @ py_str w c @ lit ''** (ID: ''
            @ backtick @ py_str w i @ backtick @ lit '')'')))"

definition update_task_try :: "world \<Rightarrow> UpdateTaskInput \<Rightarrow> (exn + ustr) \<times> request list" where
  "update_task_try w p =
     (if update_task_data p = [] then (Inr no_fields_to_update, [])
      else
        (case make_api_request w (lit ''tasks/'' @ UpdateTaskInput.task_id p) (lit ''POST'')
                (Some (update_task_data p)) None of
           (res, sent) \<Rightarrow> (then_do res (updated_task w), sent)))"

definition todoist_update_task :: "world \<Rightarrow> UpdateTaskInput \<Rightarrow> ustr \<times> request list" where
  "todoist_update_task w p = except_exception (update_task_try w p)"

definition task_done :: "ustr \<Rightarrow> ustr \<Rightarrow> ustr \<Rightarrow> ustr" where
  "task_done icon verb tid =
     icon @ lit '' '' @ verb @ lit '' task (ID: '' @ backtick @ tid @ backtick @ lit '')''"

definition complete_task_try :: "world \<Rightarrow> CompleteTaskInput \<Rightarrow> (exn + ustr) \<times> request list" where
  "complete_task_try w p =
     (case make_api_request w (lit ''tasks/'' @ CompleteTaskInput.task_id p @ lit ''/close'')
             (lit ''POST'') None None of
        (res, sent) \<Rightarrow>
          (then_do res
             (\<lambda>r. Inr (task_done check_mark (lit ''Completed'') (CompleteTaskInput.task_id p))),
           sent))"

definition todoist_complete_task :: "world \<Rightarrow> CompleteTaskInput \<Rightarrow> ustr \<times> request list" where
  "todoist_complete_task w p = except_exception (complete_task_try w p)"

definition reopen_task_try :: "world \<Rightarrow> ReopenTaskInput \<Rightarrow> (exn + ustr) \<times> request list" where
  "reopen_task_try w p =
     (case make_api_request w (lit ''tasks/'' @ ReopenTaskInput.task_id p @ lit ''/reopen'')
             (lit ''POST'') None None of
        (res, sent) \<Rightarrow>
          (then_do res
             (\<lambda>r. Inr (task_done check_mark (lit ''Reopened'') (ReopenTaskInput.task_id p))),
           sent))"

definition todoist_reopen_task :: "world \<Rightarrow> ReopenTaskInput \<Rightarrow> ustr \<times> request list" where
  "todoist_reopen_task w p = except_exception (reopen_task_try w p)"

definition delete_task_try :: "world \<Rightarrow> DeleteTaskInput \<Rightarrow> (exn + ustr) \<times> request list" where
  "delete_task_try w p =
     (case make_api_request w (lit ''tasks/'' @ DeleteTaskInput.task_id p) (lit ''DELETE'')
             None None of
        (res, sent) \<Rightarrow>
          (then_do res
             (\<lambda>r. Inr (task_done wastebasket (lit ''Deleted'') (DeleteTaskInput.task_id p))),
           sent))"

definition todoist_delete_task :: "world \<Rightarrow> DeleteTaskInput \<Rightarrow> ustr \<times> request list" where
  "todoist_delete_task w p = except_exception (delete_task_try w p)"

subsection \<open>Labels\<close>

definition label_line :: "world \<Rightarrow> json \<Rightarrow> exn + ustr list" where
  "label_line w lab =
     then_do (py_get lab (lit ''is_favorite'')) (\<lambda>fav.
     then_do (py_getitem lab (lit ''name'')) (\<lambda>nm.
     then_do (py_getitem lab (lit ''id'')) (\<lambda>i.
     then_do (py_get_default lab (lit ''color'') (JStr (lit ''default''))) (\<lambda>col.
       Inr [lit ''- **'' @ py_str w nm @ lit ''**'' @ (if truthy fav then lit '' '' @ star else [])
            @ lit '' (ID: '' @ backtick @ py_str w i @ backtick @ lit '', color: ''
            @ py_str w col @ lit '')'']))))"

definition render_labels :: "world \<Rightarrow> ResponseFormat \<Rightarrow> json \<Rightarrow> exn + ustr" where
  "render_labels w fmt labs =
     (if \<not> truthy labs then Inr (lit ''No labels found. Create labels to organize your tasks.'')
      else if fmt = JSON then Inr (json_dumps w labs)
      else
        then_do (py_iter labs) (\<lambda>ls.
        then_do (collect (label_line w) ls) (\<lambda>body.
          Inr (join nl ([lit ''# Todoist Labels'', []] @ body)))))"

definition list_labels_try :: "world \<Rightarrow> ListLabelsInput \<Rightarrow> (exn + ustr) \<times> request list" where
  "list_labels_try w p =
     (case make_api_request w (lit ''labels'') (lit ''GET'') None None of
        (res, sent) \<Rightarrow>
          (then_do res (render_labels w (ListLabelsInput.response_format p)), sent))"

definition todoist_list_labels :: "world \<Rightarrow> ListLabelsInput \<Rightarrow> ustr \<times> request list" where
  "todoist_list_labels w p = except_exception (list_labels_try w p)"

definition create_label_data :: "CreateLabelInput \<Rightarrow> (ustr \<times> json) list" where
  "create_label_data p =
     [(lit ''name'', JStr (CreateLabelInput.name p))]
     @ set_if (truthy (opt_str (CreateLabelInput.color p))) (lit ''color'')
         (opt_str (CreateLabelInput.color p))
     @ set_if (CreateLabelInput.is_favorite p) (lit ''is_favorite'')
         (JBool (CreateLabelInput.is_favorite p))"

definition create_label_try :: "world \<Rightarrow> CreateLabelInput \<Rightarrow> (exn + ustr) \<times> request list" where
  "create_label_try w p =
     (case make_api_request w (lit ''labels'') (lit ''POST'') (Some (create_label_data p)) None of
        (res, sent) \<Rightarrow>
          (then_do res (created w (lit ''label'') (lit ''name'')), sent))"

definition todoist_create_label :: "world \<Rightarrow> CreateLabelInput \<Rightarrow> ustr \<times> request list" where
  "todoist_create_label w p = except_exception (create_label_try w p)"

section \<open>The tool table\<close>

text \<open>
  The twelve registered tools: an invocation names a tool and carries its validated input.
\<close>

datatype invocation =
  ListProjects ListProjectsInput
| GetProject GetProjectInput
| CreateProject CreateProjectInput
| ListTasks ListTasksInput
| GetTask GetTaskInput
| CreateTask CreateTaskInput
| UpdateTask UpdateTaskInput
| CompleteTask CompleteTaskInput
| ReopenTask ReopenTaskInput
| DeleteTask DeleteTaskInput
| ListLabels ListLabelsInput
| CreateLabel CreateLabelInput

fun tool_try :: "world \<Rightarrow> invocation \<Rightarrow> (exn + ustr) \<times> request list" where
  "tool_try w (ListProjects p) = list_projects_try w p"
| "tool_try w (GetProject p) = get_project_try w p"
| "tool_try w (CreateProject p) = create_project_try w p"
| "tool_try w (ListTasks p) = list_tasks_try w p"
| "tool_try w (GetTask p) = get_task_try w p"
| "tool_try w (CreateTask p) = create_task_try w p"
| "tool_try w (UpdateTask p) = update_task_try w p"
| "tool_try w (CompleteTask p) = complete_task_try w p"
| "tool_try w (ReopenTask p) = reopen_task_try w p"
| "tool_try w (DeleteTask p) = delete_task_try w p"
| "tool_try w (ListLabels p) = list_labels_try w p"
| "tool_try w (CreateLabel p) = create_label_try w p"

fun call_tool :: "world \<Rightarrow> invocation \<Rightarrow> ustr \<times> request list" where
  "call_tool w (ListProjects p) = todoist_list_projects w p"
| "call_tool w (GetProject p) = todoist_get_project w p"
| "call_tool w (CreateProject p) = todoist_create_project w p"
| "call_tool w (ListTasks p) = todoist_list_tasks w p"
| "call_tool w (GetTask p) = todoist_get_task w p"
| "call_tool w (CreateTask p) = todoist_create_task w p"
| "call_tool w (UpdateTask p) = todoist_update_task w p"
| "call_tool w (CompleteTask p) = todoist_complete_task w p"
| "call_tool w (ReopenTask p) = todoist_reopen_task w p"
| "call_tool w (DeleteTask p) = todoist_delete_task w p"
| "call_tool w (ListLabels p) = todoist_list_labels w p"
| "call_tool w (CreateLabel p) = todoist_create_label w p"

section \<open>Validation of the raw arguments\<close>

text \<open>
  What the declared field constraints do to the arguments of the two tools whose
  constraints matter below; \<open>None\<close> is a validation error, raised before the handler runs.
  An argument that was not given is \<open>None\<close>.
\<close>

record ListTasksArgs =
  raw_project_id :: "ustr option"
  raw_label :: "ustr option"
  raw_filter :: "ustr option"
  raw_limit :: "int option"
  raw_response_format :: "ResponseFormat option"

definition validate_list_tasks :: "ListTasksArgs \<Rightarrow> ListTasksInput option" where
  "validate_list_tasks a =
     (let lim = (case raw_limit a of None \<Rightarrow> 50 | Some n \<Rightarrow> n)
      in if 1 \<le> lim \<and> lim \<le> 200 then
           Some \<lparr>ListTasksInput.project_id = map_option strip (raw_project_id a),
                 label = map_option strip (raw_label a),
                 filter_query = map_option strip (raw_filter a),
                 limit = lim,
                 response_format =
                   (case raw_response_format a of None \<Rightarrow> MARKDOWN | Some f \<Rightarrow> f)\<rparr>
         else None)"

record UpdateTaskArgs =
  raw_task_id :: ustr
  raw_content :: "ustr option"
  raw_description :: "ustr option"
  raw_due_string :: "ustr option"
  raw_due_date :: "ustr option"
  raw_priority :: "int option"
  raw_labels :: "ustr list option"

definition to_priority :: "int \<Rightarrow> TaskPriority option" where
  "to_priority n =
     (if n = 1 then Some P1 else if n = 2 then Some P2 else if n = 3 then Some P3
      else if n = 4 then Some P4 else None)"

definition max_length :: "nat \<Rightarrow> ustr option \<Rightarrow> bool" where
  "max_length n v = (case v of None \<Rightarrow> True | Some s \<Rightarrow> length s \<le> n)"

definition validate_update_task :: "UpdateTaskArgs \<Rightarrow> UpdateTaskInput option" where
  "validate_update_task a =
     (let tid = strip (raw_task_id a);
          c = map_option strip (raw_content a);
          d = map_option strip (raw_description a)
      in if length tid < 1 \<or> \<not> max_length 5000 c \<or> \<not> max_length 16000 d then None
         else
           (case raw_priority a of
              None \<Rightarrow>
                Some \<lparr>UpdateTaskInput.task_id = tid, content = c, description = d,
                      due_string = map_option strip (raw_due_string a),
                      due_date = map_option strip (raw_due_date a),
                      priority = None,
                      labels = map_option (map strip) (raw_labels a)\<rparr>
            | Some n \<Rightarrow>
                (case to_priority n of
                   None \<Rightarrow> None
                 | Some pr \<Rightarrow>
                     Some \<lparr>UpdateTaskInput.task_id = tid, content = c, description = d,
                           due_string = map_option strip (raw_due_string a),
                           due_date = map_option strip (raw_due_date a),
                           priority = Some pr,
                           labels = map_option (map strip) (raw_labels a)\<rparr>)))"

section \<open>Sample worlds and inputs\<close>

text \<open>
  Concrete worlds and inputs on which the properties below are exercised: a world is given
  by the token in the environment and the behaviour of the remote service.
\<close>

definition sample_world :: "ustr option \<Rightarrow> (request \<Rightarrow> exn + response) \<Rightarrow> world" where
  "sample_world token remote =
     \<lparr>environ = (\<lambda>k. if k = lit ''TODOIST_API_TOKEN'' then token else None),
      client_request = remote,
      json_dumps = (\<lambda>v. lit ''(json)''),
      py_repr = (\<lambda>v. lit ''(repr)'')\<rparr>"

definition replies :: "int \<Rightarrow> json \<Rightarrow> request \<Rightarrow> exn + response" where
  "replies status body rq = Inr \<lparr>status_code = status, json_result = Inr body\<rparr>"

definition long_text :: "nat \<Rightarrow> ustr" where
  "long_text n = replicate n 120"

definition sample_task :: json where
  "sample_task =
     JObj [(lit ''id'', JStr (lit ''101'')),
           (lit ''content'', JStr (lit ''Buy milk'')),
           (lit ''priority'', JInt 4),
           (lit ''description'', JStr (long_text 201)),
           (lit ''labels'', JList [JStr (lit ''home'')])]"

definition brief_task :: json where
  "brief_task =
     JObj [(lit ''id'', JStr (lit ''102'')),
           (lit ''content'', JStr (lit ''Call Sam'')),
           (lit ''description'', JStr (lit ''before noon''))]"

definition long_label :: json where
  "long_label = JObj [(lit ''id'', JStr (lit ''7'')), (lit ''name'', JStr (long_text 25000))]"

definition markdown_labels :: ListLabelsInput where
  "markdown_labels = \<lparr>ListLabelsInput.response_format = MARKDOWN\<rparr>"

definition markdown_projects :: ListProjectsInput where
  "markdown_projects = \<lparr>ListProjectsInput.response_format = MARKDOWN\<rparr>"

definition update_nothing :: UpdateTaskInput where
  "update_nothing =
     \<lparr>UpdateTaskInput.task_id = lit ''101'', content = None, description = None,
      due_string = None, due_date = None, priority = None, labels = None\<rparr>"

definition update_content :: "ustr \<Rightarrow> UpdateTaskInput" where
  "update_content c = update_nothing\<lparr>UpdateTaskInput.content := Some c\<rparr>"

definition update_description :: "ustr \<Rightarrow> UpdateTaskInput" where
  "update_description d = update_nothing\<lparr>UpdateTaskInput.description := Some d\<rparr>"

definition update_due :: "ustr option \<Rightarrow> ustr option \<Rightarrow> UpdateTaskInput" where
  "update_due s d =
     update_nothing\<lparr>UpdateTaskInput.due_string := s, UpdateTaskInput.due_date := d\<rparr>"

definition create_due :: "ustr option \<Rightarrow> ustr option \<Rightarrow> CreateTaskInput" where
  "create_due s d =
     \<lparr>CreateTaskInput.content = lit ''Buy milk'', description = None, project_id = None,
      due_string = s, due_date = d, priority = None, labels = None, parent_id = None\<rparr>"

definition list_tasks_args :: "int option \<Rightarrow> ListTasksArgs" where
  "list_tasks_args n =
     \<lparr>raw_project_id = None, raw_label = None, raw_filter = None, raw_limit = n,
      raw_response_format = None\<rparr>"

definition update_task_args :: "ustr option \<Rightarrow> ustr option \<Rightarrow> UpdateTaskArgs" where
  "update_task_args c d =
     \<lparr>raw_task_id = lit ''101'', raw_content = c, raw_description = d, raw_due_string = None,
      raw_due_date = None, raw_priority = None, raw_labels = None\<rparr>"

section \<open>Basic facts\<close>

lemma then_do_simps [simp]: "then_do (Inr x) f = f x" "then_do (Inl e) f = Inl e"
  by (simp_all add: then_do_def)

lemma then_do_Inr: "then_do m f = Inr y \<longleftrightarrow> (\<exists>x. m = Inr x \<and> f x = Inr y)"
  by (cases m) simp_all

lemma length_lit [simp]: "length (lit s) = length s"
  by (simp add: lit_def)

lemma long_text_simps [simp]: "length (long_text n) = n" "long_text n = [] \<longleftrightarrow> n = 0"
  by (simp_all add: long_text_def)

lemmas tool_defs =
  todoist_list_projects_def todoist_get_project_def todoist_create_project_def
  todoist_list_tasks_def todoist_get_task_def todoist_create_task_def todoist_update_task_def
  todoist_complete_task_def todoist_reopen_task_def todoist_delete_task_def
  todoist_list_labels_def todoist_create_label_def

lemmas try_defs =
  list_projects_try_def get_project_try_def create_project_try_def
  list_tasks_try_def get_task_try_def create_task_try_def update_task_try_def
  complete_task_try_def reopen_task_try_def delete_task_try_def
  list_labels_try_def create_label_try_def

lemmas optional_defs = set_if_def opt_str_def opt_strs_def opt_priority_def

subsection \<open>Requests\<close>

lemma make_api_request_sent:
  "rq \<in> set (snd (make_api_request w endpoint meth body query)) \<Longrightarrow>
   req_method rq = meth \<and> req_url rq = API_BASE_URL @ lit ''/'' @ endpoint
   \<and> req_json rq = body \<and> req_params rq = query"
  by (auto simp: make_api_request_def Let_def split: sum.splits)

lemma make_api_request_with_token:
  "environ w (lit ''TODOIST_API_TOKEN'') = Some tok \<Longrightarrow> tok \<noteq> [] \<Longrightarrow>
   snd (make_api_request w endpoint meth body query) =
     [\<lparr>req_method = meth, req_url = API_BASE_URL @ lit ''/'' @ endpoint,
       req_headers = [(lit ''Authorization'', lit ''Bearer '' @ tok),
                      (lit ''Content-Type'', lit ''application/json'')],
       req_json = body, req_params = query, req_timeout = 30\<rparr>]"
  by (simp add: make_api_request_def get_api_token_def Let_def)

lemma make_api_request_no_token:
  "environ w (lit ''TODOIST_API_TOKEN'') = None \<or> environ w (lit ''TODOIST_API_TOKEN'') = Some []
   \<Longrightarrow> make_api_request w endpoint meth body query = (Inl (ValueError token_missing), [])"
  by (auto simp: make_api_request_def get_api_token_def)

lemma make_api_request_status:
  "environ w (lit ''TODOIST_API_TOKEN'') = Some tok \<Longrightarrow> tok \<noteq> [] \<Longrightarrow>
   client_request w
     \<lparr>req_method = meth, req_url = API_BASE_URL @ lit ''/'' @ endpoint,
      req_headers = [(lit ''Authorization'', lit ''Bearer '' @ tok),
                     (lit ''Content-Type'', lit ''application/json'')],
      req_json = body, req_params = query, req_timeout = 30\<rparr>
     = Inr r \<Longrightarrow>
   fst (make_api_request w endpoint meth body query) =
     (if \<not> is_success (status_code r) then Inl (HTTPStatusError (status_code r))
      else if status_code r = 204 then Inr JNull
      else json_result r)"
  by (simp add: make_api_request_def get_api_token_def Let_def)

lemma update_task_sent:
  "snd (todoist_update_task w p) =
     (if update_task_data p = [] then []
      else snd (make_api_request w (lit ''tasks/'' @ UpdateTaskInput.task_id p) (lit ''POST'')
                  (Some (update_task_data p)) None))"
  by (simp add: todoist_update_task_def update_task_try_def except_exception_def
      split: prod.splits)

subsection \<open>The error formatter\<close>

lemma handle_api_error_marker: "prefix (lit ''Error:'') (handle_api_error e)"
  by (cases e) (auto simp: lit_def)

lemma call_tool_except: "call_tool w call = except_exception (tool_try w call)"
  by (cases call) (simp_all add: tool_defs)

section \<open>Properties of the specification\<close>

text \<open>
  C2. Every failure that reaches a tool handler ends in exactly one message of the category
  table, every such message begins with the marker \<open>Error:\<close>, and nothing propagates to the
  caller. The formatter \<open>handle_api_error\<close> is total on the exception classes and each of
  its values has the marker; its rows are the table of the specification, where the row of
  the server errors is the guard of the code, every status from 500 on (the 5xx class of
  the HTTP status range), and the generic row is every status below 500 that has no row of
  its own. Whatever exception \<open>e\<close> the body of a handler raises, the handler returns the
  string \<open>handle_api_error e\<close> together with the requests already sent: it is a total
  function into strings.
\<close>

theorem error_mapping_total:
  "prefix (lit ''Error:'') (handle_api_error e)
   \<and> handle_api_error (HTTPStatusError 400)
       = lit ''Error: Invalid request. Check your parameters are correct.''
   \<and> handle_api_error (HTTPStatusError 401)
       = lit ''Error: Invalid API token. Check TODOIST_API_TOKEN is correct.''
   \<and> handle_api_error (HTTPStatusError 403)
       = lit ''Error: Permission denied. You may not have access to this resource.''
   \<and> handle_api_error (HTTPStatusError 404)
       = lit ''Error: Resource not found. Check the ID is correct.''
   \<and> handle_api_error (HTTPStatusError 429)
       = lit ''Error: Rate limit exceeded. Please wait before making more requests.''
   \<and> (500 \<le> s \<longrightarrow>
        handle_api_error (HTTPStatusError s)
          = lit ''Error: Todoist server error. Please try again later.'')
   \<and> (s' < 500 \<and> s' \<notin> {400, 401, 403, 404, 429} \<longrightarrow>
        handle_api_error (HTTPStatusError s')
          = lit ''Error: API request failed with status '' @ str_int s')
   \<and> handle_api_error TimeoutException = lit ''Error: Request timed out. Please try again.''
   \<and> handle_api_error (ValueError msg) = lit ''Error: '' @ msg
   \<and> handle_api_error (OtherException cls msg') = lit ''Error: '' @ cls @ lit '': '' @ msg'
   \<and> (fst (tool_try w call) = Inl e' \<longrightarrow>
        call_tool w call = (handle_api_error e', snd (tool_try w call)))"
proof (intro conjI impI)
  show "prefix (lit ''Error:'') (handle_api_error e)"
    by (rule handle_api_error_marker)
next
  assume "fst (tool_try w call) = Inl e'"
  then show "call_tool w call = (handle_api_error e', snd (tool_try w call))"
    by (simp add: call_tool_except except_exception_def caught_def)
qed simp_all

theorem error_mapping_total_witness:
  "handle_api_error (HTTPStatusError 503) = lit ''Error: Todoist server error. Please try again later.''
   \<and> handle_api_error (HTTPStatusError 418) = lit ''Error: API request failed with status 418''
   \<and> fst (tool_try (sample_world (Some (lit ''token'')) (replies 404 JNull))
             (GetTask \<lparr>GetTaskInput.task_id = lit ''999999999'', response_format = MARKDOWN\<rparr>))
       = Inl (HTTPStatusError 404)
   \<and> call_tool (sample_world (Some (lit ''token'')) (replies 404 JNull))
        (GetTask \<lparr>GetTaskInput.task_id = lit ''999999999'', response_format = MARKDOWN\<rparr>)
       = (lit ''Error: Resource not found. Check the ID is correct.'',
          [\<lparr>req_method = lit ''GET'',
            req_url = lit ''https://api.todoist.com/rest/v2/tasks/999999999'',
            req_headers = [(lit ''Authorization'', lit ''Bearer token''),
                           (lit ''Content-Type'', lit ''application/json'')],
            req_json = None, req_params = None, req_timeout = 30\<rparr>])"
proof -
  have raised:
    "tool_try (sample_world (Some (lit ''token'')) (replies 404 JNull))
       (GetTask \<lparr>GetTaskInput.task_id = lit ''999999999'', response_format = MARKDOWN\<rparr>)
     = (Inl (HTTPStatusError 404),
        [\<lparr>req_method = lit ''GET'',
          req_url = lit ''https://api.todoist.com/rest/v2/tasks/999999999'',
          req_headers = [(lit ''Authorization'', lit ''Bearer token''),
                         (lit ''Content-Type'', lit ''application/json'')],
          req_json = None, req_params = None, req_timeout = 30\<rparr>])"
    by (simp add: get_task_try_def make_api_request_def get_api_token_def sample_world_def
        replies_def is_success_def API_BASE_URL_def lit_def)
  from error_mapping_total
         [of _ 503 418 _ _ _
             "sample_world (Some (lit ''token'')) (replies 404 JNull)"
             "GetTask \<lparr>GetTaskInput.task_id = lit ''999999999'', response_format = MARKDOWN\<rparr>"
             "HTTPStatusError 404"]
       raised
  show ?thesis by (simp add: str_int_def str_nat.simps lit_def)
qed

text \<open>
  C3. An update-task invocation whose request body would be empty (no optional field
  contributes to it; in particular when no optional field is set) returns the local
  \<open>no_fields_to_update\<close> message and sends no request. Every request that update-task
  sends is a POST to \<open>tasks/{id}\<close> whose body is the dict built from the input, and every
  entry of that dict is one of the six optional fields with the value that was supplied
  for it.
\<close>

theorem update_task_empty_diff:
  "(update_task_data p0 = [] \<longrightarrow> todoist_update_task w p0 = (no_fields_to_update, []))
   \<and> (UpdateTaskInput.content p0 = None \<and> UpdateTaskInput.description p0 = None
        \<and> UpdateTaskInput.due_string p0 = None \<and> UpdateTaskInput.due_date p0 = None
        \<and> UpdateTaskInput.priority p0 = None \<and> UpdateTaskInput.labels p0 = None
      \<longrightarrow> update_task_data p0 = [])
   \<and> (\<forall>rq \<in> set (snd (todoist_update_task w p)).
         req_method rq = lit ''POST''
         \<and> req_url rq = API_BASE_URL @ lit ''/tasks/'' @ UpdateTaskInput.task_id p
         \<and> req_json rq = Some (update_task_data p))
   \<and> (\<forall>kv \<in> set (update_task_data p).
         snd kv \<noteq> JNull
         \<and> kv \<in> {(lit ''content'', opt_str (UpdateTaskInput.content p)),
                  (lit ''description'', opt_str (UpdateTaskInput.description p)),
                  (lit ''due_string'', opt_str (UpdateTaskInput.due_string p)),
                  (lit ''due_date'', opt_str (UpdateTaskInput.due_date p)),
                  (lit ''priority'', opt_priority (UpdateTaskInput.priority p)),
                  (lit ''labels'', opt_strs (UpdateTaskInput.labels p))})"
proof (intro conjI)
  show "update_task_data p0 = [] \<longrightarrow> todoist_update_task w p0 = (no_fields_to_update, [])"
    by (simp add: todoist_update_task_def update_task_try_def except_exception_def caught_def)
  show "UpdateTaskInput.content p0 = None \<and> UpdateTaskInput.description p0 = None
        \<and> UpdateTaskInput.due_string p0 = None \<and> UpdateTaskInput.due_date p0 = None
        \<and> UpdateTaskInput.priority p0 = None \<and> UpdateTaskInput.labels p0 = None
      \<longrightarrow> update_task_data p0 = []"
    by (simp add: update_task_data_def optional_defs)
  show "\<forall>rq \<in> set (snd (todoist_update_task w p)).
         req_method rq = lit ''POST''
         \<and> req_url rq = API_BASE_URL @ lit ''/tasks/'' @ UpdateTaskInput.task_id p
         \<and> req_json rq = Some (update_task_data p)"
    using make_api_request_sent [of _ w "lit ''tasks/'' @ UpdateTaskInput.task_id p" "lit ''POST''"
            "Some (update_task_data p)" None]
    by (auto simp: update_task_sent lit_def split: if_splits)
  show "\<forall>kv \<in> set (update_task_data p).
         snd kv \<noteq> JNull
         \<and> kv \<in> {(lit ''content'', opt_str (UpdateTaskInput.content p)),
                  (lit ''description'', opt_str (UpdateTaskInput.description p)),
                  (lit ''due_string'', opt_str (UpdateTaskInput.due_string p)),
                  (lit ''due_date'', opt_str (UpdateTaskInput.due_date p)),
                  (lit ''priority'', opt_priority (UpdateTaskInput.priority p)),
                  (lit ''labels'', opt_strs (UpdateTaskInput.labels p))}"
    by (auto simp: update_task_data_def set_if_def split: if_splits)
qed

theorem update_task_empty_diff_witness:
  "todoist_update_task (sample_world (Some (lit ''token'')) (replies 200 sample_task)) update_nothing
     = (lit ''Error: No fields to update. Provide at least one field to change.'', [])
   \<and> update_task_data (update_content (lit ''Buy oat milk''))
       = [(lit ''content'', JStr (lit ''Buy oat milk''))]
   \<and> (\<exists>rq. snd (todoist_update_task
                   (sample_world (Some (lit ''token'')) (replies 200 sample_task))
                   (update_content (lit ''Buy oat milk''))) = [rq]
         \<and> req_method rq = lit ''POST''
         \<and> req_url rq = lit ''https://api.todoist.com/rest/v2/tasks/101''
         \<and> req_json rq = Some [(lit ''content'', JStr (lit ''Buy oat milk''))])"
proof -
  let ?w = "sample_world (Some (lit ''token'')) (replies 200 sample_task)"
  let ?p = "update_content (lit ''Buy oat milk'')"
  have none: "UpdateTaskInput.content update_nothing = None
      \<and> UpdateTaskInput.description update_nothing = None
      \<and> UpdateTaskInput.due_string update_nothing = None
      \<and> UpdateTaskInput.due_date update_nothing = None
      \<and> UpdateTaskInput.priority update_nothing = None
      \<and> UpdateTaskInput.labels update_nothing = None"
    by (simp add: update_nothing_def)
  have data: "update_task_data ?p = [(lit ''content'', JStr (lit ''Buy oat milk''))]"
    by (simp add: update_task_data_def update_content_def update_nothing_def optional_defs lit_def)
  have tid: "UpdateTaskInput.task_id ?p = lit ''101''"
    by (simp add: update_content_def update_nothing_def)
  have tok: "environ ?w (lit ''TODOIST_API_TOKEN'') = Some (lit ''token'')" "lit ''token'' \<noteq> []"
    by (simp_all add: sample_world_def lit_def)
  have sent: "snd (todoist_update_task ?w ?p) =
     [\<lparr>req_method = lit ''POST'',
       req_url = API_BASE_URL @ lit ''/'' @ lit ''tasks/'' @ UpdateTaskInput.task_id ?p,
       req_headers = [(lit ''Authorization'', lit ''Bearer '' @ lit ''token''),
                      (lit ''Content-Type'', lit ''application/json'')],
       req_json = Some (update_task_data ?p), req_params = None, req_timeout = 30\<rparr>]"
    using make_api_request_with_token [OF tok, of "lit ''tasks/'' @ UpdateTaskInput.task_id ?p"
            "lit ''POST''" "Some (update_task_data ?p)" None]
    by (simp add: update_task_sent data)
  from update_task_empty_diff [of update_nothing ?w ?p] none data sent tid
  show ?thesis by (simp add: no_fields_to_update_def API_BASE_URL_def lit_def)
qed

text \<open>
  C5 (as stated). With the credential variable absent or empty, every tool is claimed to
  return the configuration error. Update-task with an empty diff returns before it asks for
  the token: with no token in the environment it answers with the \<open>no_fields_to_update\<close>
  message, which is not the configuration error.
\<close>

theorem update_without_token_counterexample:
  "environ (sample_world None (replies 200 JNull)) (lit ''TODOIST_API_TOKEN'') = None
   \<and> fst (call_tool (sample_world None (replies 200 JNull)) (UpdateTask update_nothing))
       = lit ''Error: No fields to update. Provide at least one field to change.''
   \<and> fst (call_tool (sample_world None (replies 200 JNull)) (UpdateTask update_nothing))
       \<noteq> handle_api_error (ValueError token_missing)"
  by (simp add: sample_world_def tool_defs try_defs except_exception_def caught_def
      update_nothing_def update_task_data_def optional_defs no_fields_to_update_def
      token_missing_def lit_def)

text \<open>
  C5 (amended). With the credential variable absent or empty, every tool invocation other
  than an update-task with an empty diff returns the configuration error and sends no
  request: the \<open>ValueError\<close> of \<open>get_api_token\<close> goes through \<open>handle_api_error\<close> like a
  remote error, and the string names the variable and says where the token is obtained.
  An update-task with an empty diff returns the \<open>no_fields_to_update\<close> message instead.
\<close>

theorem missing_token_error:
  "(environ w (lit ''TODOIST_API_TOKEN'') = None \<or> environ w (lit ''TODOIST_API_TOKEN'') = Some [])
   \<longrightarrow> ((\<forall>p. call = UpdateTask p \<longrightarrow> update_task_data p \<noteq> [])
         \<longrightarrow> call_tool w call = (handle_api_error (ValueError token_missing), []))
       \<and> (update_task_data p0 = [] \<longrightarrow> call_tool w (UpdateTask p0) = (no_fields_to_update, []))
       \<and> handle_api_error (ValueError token_missing) =
           lit ''Error: TODOIST_API_TOKEN environment variable not set. ''
           @ lit ''Get your token from: Todoist Settings '' @ arrow @ lit '' Integrations ''
           @ arrow @ lit '' Developer '' @ arrow @ lit '' API token''"
proof (intro impI conjI)
  assume tok: "environ w (lit ''TODOIST_API_TOKEN'') = None
               \<or> environ w (lit ''TODOIST_API_TOKEN'') = Some []"
  assume "\<forall>p. call = UpdateTask p \<longrightarrow> update_task_data p \<noteq> []"
  then show "call_tool w call = (handle_api_error (ValueError token_missing), [])"
    by (cases call)
       (simp_all add: tool_defs try_defs except_exception_def caught_def
          make_api_request_no_token [OF tok])
next
  assume "update_task_data p0 = []"
  then show "call_tool w (UpdateTask p0) = (no_fields_to_update, [])"
    by (simp add: tool_defs try_defs except_exception_def caught_def)
next
  show "handle_api_error (ValueError token_missing) =
           lit ''Error: TODOIST_API_TOKEN environment variable not set. ''
           @ lit ''Get your token from: Todoist Settings '' @ arrow @ lit '' Integrations ''
           @ arrow @ lit '' Developer '' @ arrow @ lit '' API token''"
    by (simp add: token_missing_def lit_def)
qed

theorem missing_token_error_witness:
  "call_tool (sample_world None (replies 200 JNull))
     (GetTask \<lparr>GetTaskInput.task_id = lit ''101'', response_format = MARKDOWN\<rparr>)
     = (lit ''Error: '' @ token_missing, [])
   \<and> call_tool (sample_world (Some []) (replies 200 JNull))
       (UpdateTask (update_content (lit ''Buy oat milk'')))
     = (lit ''Error: '' @ token_missing, [])
   \<and> call_tool (sample_world None (replies 200 JNull)) (UpdateTask update_nothing)
     = (no_fields_to_update, [])"
proof -
  have e1: "environ (sample_world None (replies 200 JNull)) (lit ''TODOIST_API_TOKEN'') = None
            \<or> environ (sample_world None (replies 200 JNull)) (lit ''TODOIST_API_TOKEN'') = Some []"
    by (simp add: sample_world_def)
  have e2: "environ (sample_world (Some []) (replies 200 JNull)) (lit ''TODOIST_API_TOKEN'') = None
            \<or> environ (sample_world (Some []) (replies 200 JNull)) (lit ''TODOIST_API_TOKEN'')
                = Some []"
    by (simp add: sample_world_def)
  have d0: "update_task_data update_nothing = []"
    by (simp add: update_nothing_def update_task_data_def optional_defs)
  have d1: "update_task_data (update_content (lit ''Buy oat milk'')) \<noteq> []"
    by (simp add: update_content_def update_nothing_def update_task_data_def optional_defs lit_def)
  from missing_token_error [of "sample_world None (replies 200 JNull)"
         "GetTask \<lparr>GetTaskInput.task_id = lit ''101'', response_format = MARKDOWN\<rparr>"
         update_nothing]
       missing_token_error [of "sample_world (Some []) (replies 200 JNull)"
         "UpdateTask (update_content (lit ''Buy oat milk''))" update_nothing]
       e1 e2 d0 d1
  show ?thesis by simp
qed

subsection \<open>The lines of the two task views\<close>

lemma take_long_text: "take m (long_text n) = long_text (min m n)"
  by (simp add: long_text_def)

lemma list_description_str:
  "list_description (JStr s) =
     Inr (JStr (if length s > 200 then take 200 s @ lit ''...'' else s))"
  by (simp add: list_description_def py_len_def py_slice_to_def slice_to_def add_ellipsis_def)





lemmas py_defs =
  py_get_def py_get_default_def py_getitem_def py_str_def py_join_def py_iter_def py_len_def
  py_slice_to_def slice_to_def

lemma sample_task_lines:
  "task_lines w sample_task =
     Inr [lit ''### '' @ red_circle @ lit '' Buy milk'',
          lit ''- **ID**: '' @ backtick @ lit ''101'' @ backtick,
          lit ''- **Due**: No due date'',
          lit ''- **Priority**: P1 (highest)'',
          lit ''- **Labels**: home'',
          lit ''- **Description**: '' @ long_text 200 @ lit ''...'',
          []]"
  by (simp add: task_lines_def sample_task_def py_defs format_due_def priority_label_def
      priority_marker_def or_none_def list_description_str take_long_text lit_def)

lemma sample_task_detail:
  "detail_lines w sample_task =
     Inr [lit ''# Buy milk'',
          [],
          lit ''- **ID**: '' @ backtick @ lit ''101'' @ backtick,
          lit ''- **Project**: '' @ backtick @ lit ''Inbox'' @ backtick,
          lit ''- **Due**: No due date'',
          lit ''- **Priority**: P1 (highest)'',
          lit ''- **Labels**: home'',
          lit ''- **Created**: unknown'',
          [],
          lit ''## Description'',
          long_text 201]"
  by (simp add: detail_lines_def sample_task_def py_defs format_due_def priority_label_def
      or_none_def detail_description_def lit_def)

lemma brief_task_lines:
  "task_lines w brief_task =
     Inr [lit ''###  Call Sam'',
          lit ''- **ID**: '' @ backtick @ lit ''102'' @ backtick,
          lit ''- **Due**: No due date'',
          lit ''- **Priority**: P4 (lowest)'',
          lit ''- **Labels**: none'',
          lit ''- **Description**: before noon'',
          []]"
  by (simp add: task_lines_def brief_task_def py_defs format_due_def priority_label_def
      priority_marker_def or_none_def list_description_str lit_def)





subsection \<open>The due line of the two task views\<close>

lemma task_lines_due:
  "task_lines w t = Inr ls \<Longrightarrow>
   \<exists>du due. py_get t (lit ''due'') = Inr du \<and> format_due w du = Inr due
     \<and> ls ! 2 = lit ''- **Due**: '' @ py_str w due"
  unfolding task_lines_def then_do_Inr by (elim exE conjE) auto

lemma detail_lines_due:
  "detail_lines w t = Inr ls \<Longrightarrow>
   \<exists>du due. py_get t (lit ''due'') = Inr du \<and> format_due w du = Inr due
     \<and> ls ! 4 = lit ''- **Due**: '' @ py_str w due"
  unfolding detail_lines_def then_do_Inr by (elim exE conjE) auto

lemma format_due_datetime:
  "d \<noteq> [] \<Longrightarrow> py_get (JObj d) (lit ''datetime'') = Inr dt \<Longrightarrow> truthy dt \<Longrightarrow>
   format_due w (JObj d) = Inr dt"
  by (auto simp: format_due_def py_get_def py_get_default_def py_getitem_def
      split: option.splits)

lemma format_due_string:
  "d \<noteq> [] \<Longrightarrow> py_get (JObj d) (lit ''datetime'') = Inr dt \<Longrightarrow> \<not> truthy dt \<Longrightarrow>
   py_get (JObj d) (lit ''string'') = Inr s \<Longrightarrow> truthy s \<Longrightarrow>
   py_get_default (JObj d) (lit ''date'') (JStr []) = Inr date \<Longrightarrow>
   format_due w (JObj d) = Inr (JStr (py_str w s @ lit '' ('' @ py_str w date @ lit '')''))"
  by (auto simp: format_due_def py_get_def py_get_default_def py_getitem_def
      split: option.splits)

lemma format_due_date:
  "d \<noteq> [] \<Longrightarrow> py_get (JObj d) (lit ''datetime'') = Inr dt \<Longrightarrow> \<not> truthy dt \<Longrightarrow>
   py_get (JObj d) (lit ''string'') = Inr s \<Longrightarrow> \<not> truthy s \<Longrightarrow>
   py_get_default (JObj d) (lit ''date'') (JStr []) = Inr date \<Longrightarrow>
   format_due w (JObj d) = Inr date"
  by (auto simp: format_due_def py_get_def py_get_default_def py_getitem_def
      split: option.splits)

text \<open>
  C4. The due rendering picks its field in a fixed order. An absent due object (\<open>JNull\<close>)
  and an empty one render \<open>No due date\<close>. For a non-empty due object, where a field counts
  as present when the object has it with a truthy value: if \<open>datetime\<close> is present, it alone
  is rendered; otherwise, if \<open>string\<close> is present, the string is rendered followed by the
  date in parentheses; otherwise the date is rendered (the empty string when the object
  has no date). Both task views put this rendering on their due line.
\<close>

theorem format_due_priority_order:
  "format_due w JNull = Inr (JStr (lit ''No due date''))
   \<and> format_due w (JObj []) = Inr (JStr (lit ''No due date''))
   \<and> (d1 \<noteq> [] \<and> py_get (JObj d1) (lit ''datetime'') = Inr dt1 \<and> truthy dt1
      \<longrightarrow> format_due w (JObj d1) = Inr dt1)
   \<and> (d2 \<noteq> [] \<and> py_get (JObj d2) (lit ''datetime'') = Inr dt2 \<and> \<not> truthy dt2
       \<and> py_get (JObj d2) (lit ''string'') = Inr s2 \<and> truthy s2
       \<and> py_get_default (JObj d2) (lit ''date'') (JStr []) = Inr date2
      \<longrightarrow> format_due w (JObj d2)
            = Inr (JStr (py_str w s2 @ lit '' ('' @ py_str w date2 @ lit '')'')))
   \<and> (d3 \<noteq> [] \<and> py_get (JObj d3) (lit ''datetime'') = Inr dt3 \<and> \<not> truthy dt3
       \<and> py_get (JObj d3) (lit ''string'') = Inr s3 \<and> \<not> truthy s3
       \<and> py_get_default (JObj d3) (lit ''date'') (JStr []) = Inr date3
      \<longrightarrow> format_due w (JObj d3) = Inr date3)
   \<and> (task_lines w t = Inr ls \<longrightarrow>
        (\<exists>du due. py_get t (lit ''due'') = Inr du \<and> format_due w du = Inr due
           \<and> ls ! 2 = lit ''- **Due**: '' @ py_str w due))
   \<and> (detail_lines w t' = Inr ls' \<longrightarrow>
        (\<exists>du due. py_get t' (lit ''due'') = Inr du \<and> format_due w du = Inr due
           \<and> ls' ! 4 = lit ''- **Due**: '' @ py_str w due))"
  using format_due_datetime [of d1 dt1 w] format_due_string [of d2 dt2 s2 date2 w]
        format_due_date [of d3 dt3 s3 date3 w] task_lines_due [of w t ls]
        detail_lines_due [of w t' ls']
  by (simp add: format_due_def)

theorem format_due_priority_order_witness:
  "format_due (sample_world None (replies 200 JNull))
     (JObj [(lit ''date'', JStr (lit ''2024-01-15'')),
            (lit ''string'', JStr (lit ''Jan 15'')),
            (lit ''datetime'', JStr (lit ''2024-01-15T09:00:00''))])
     = Inr (JStr (lit ''2024-01-15T09:00:00''))
   \<and> format_due (sample_world None (replies 200 JNull))
       (JObj [(lit ''date'', JStr (lit ''2024-01-15'')),
              (lit ''string'', JStr (lit ''Jan 15''))])
     = Inr (JStr (lit ''Jan 15 (2024-01-15)''))
   \<and> format_due (sample_world None (replies 200 JNull))
       (JObj [(lit ''date'', JStr (lit ''2024-01-15''))])
     = Inr (JStr (lit ''2024-01-15''))
   \<and> (\<exists>ls. task_lines (sample_world None (replies 200 JNull)) sample_task = Inr ls
         \<and> ls ! 2 = lit ''- **Due**: No due date'')
   \<and> (\<exists>ls. detail_lines (sample_world None (replies 200 JNull)) sample_task = Inr ls
         \<and> ls ! 4 = lit ''- **Due**: No due date'')"
proof -
  have a: "py_get (JObj [(lit ''date'', JStr (lit ''2024-01-15'')),
                         (lit ''string'', JStr (lit ''Jan 15'')),
                         (lit ''datetime'', JStr (lit ''2024-01-15T09:00:00''))])
             (lit ''datetime'') = Inr (JStr (lit ''2024-01-15T09:00:00''))"
    "truthy (JStr (lit ''2024-01-15T09:00:00''))"
    by (simp_all add: py_get_def py_get_default_def lit_def)
  have b: "py_get (JObj [(lit ''date'', JStr (lit ''2024-01-15'')),
                         (lit ''string'', JStr (lit ''Jan 15''))]) (lit ''datetime'') = Inr JNull"
    "py_get (JObj [(lit ''date'', JStr (lit ''2024-01-15'')),
                   (lit ''string'', JStr (lit ''Jan 15''))]) (lit ''string'')
       = Inr (JStr (lit ''Jan 15''))"
    "truthy (JStr (lit ''Jan 15''))"
    "py_get_default (JObj [(lit ''date'', JStr (lit ''2024-01-15'')),
                           (lit ''string'', JStr (lit ''Jan 15''))]) (lit ''date'') (JStr [])
       = Inr (JStr (lit ''2024-01-15''))"
    by (simp_all add: py_get_def py_get_default_def lit_def)
  have c: "py_get (JObj [(lit ''date'', JStr (lit ''2024-01-15''))]) (lit ''datetime'') = Inr JNull"
    "py_get (JObj [(lit ''date'', JStr (lit ''2024-01-15''))]) (lit ''string'') = Inr JNull"
    "py_get_default (JObj [(lit ''date'', JStr (lit ''2024-01-15''))]) (lit ''date'') (JStr [])
       = Inr (JStr (lit ''2024-01-15''))"
    by (simp_all add: py_get_def py_get_default_def lit_def)
  have due: "py_get sample_task (lit ''due'') = Inr JNull"
    by (simp add: sample_task_def py_get_def py_get_default_def lit_def)
  from format_due_priority_order
         [of "sample_world None (replies 200 JNull)"
             "[(lit ''date'', JStr (lit ''2024-01-15'')),
               (lit ''string'', JStr (lit ''Jan 15'')),
               (lit ''datetime'', JStr (lit ''2024-01-15T09:00:00''))]"
             "JStr (lit ''2024-01-15T09:00:00'')"
             "[(lit ''date'', JStr (lit ''2024-01-15'')), (lit ''string'', JStr (lit ''Jan 15''))]"
             JNull "JStr (lit ''Jan 15'')" "JStr (lit ''2024-01-15'')"
             "[(lit ''date'', JStr (lit ''2024-01-15''))]" JNull JNull "JStr (lit ''2024-01-15'')"
             sample_task _ sample_task]
       a b c due sample_task_lines sample_task_detail
  show ?thesis by (auto simp: py_str_def lit_def)
qed

subsection \<open>The request bodies of create-task and update-task\<close>

lemma create_task_sent:
  "snd (todoist_create_task w p) =
     snd (make_api_request w (lit ''tasks'') (lit ''POST'') (Some (create_task_data p)) None)"
  by (simp add: todoist_create_task_def create_task_try_def except_exception_def
      case_prod_beta)

lemma create_task_due:
  "map_of (create_task_data p) (lit ''due_string'')
     = (if truthy (opt_str (CreateTaskInput.due_string p))
        then Some (opt_str (CreateTaskInput.due_string p)) else None)"
  "map_of (create_task_data p) (lit ''due_date'')
     = (if \<not> truthy (opt_str (CreateTaskInput.due_string p))
           \<and> truthy (opt_str (CreateTaskInput.due_date p))
        then Some (opt_str (CreateTaskInput.due_date p)) else None)"
  by (simp_all add: create_task_data_def set_if_def lit_def)

lemma update_task_due:
  "map_of (update_task_data p) (lit ''due_string'')
     = (if truthy (opt_str (UpdateTaskInput.due_string p))
        then Some (opt_str (UpdateTaskInput.due_string p)) else None)"
  "map_of (update_task_data p) (lit ''due_date'')
     = (if \<not> truthy (opt_str (UpdateTaskInput.due_string p))
           \<and> truthy (opt_str (UpdateTaskInput.due_date p))
        then Some (opt_str (UpdateTaskInput.due_date p)) else None)"
  by (simp_all add: update_task_data_def set_if_def lit_def)

text \<open>
  C9. When create-task or update-task is given both a non-empty \<open>due_string\<close> and a
  non-empty \<open>due_date\<close>, the request body has the \<open>due_string\<close> and no \<open>due_date\<close>; the body
  has a \<open>due_date\<close> only when \<open>due_string\<close> is absent or empty. The body is what every
  request of the two tools carries.
\<close>

theorem due_string_shadows_due_date:
  "(CreateTaskInput.due_string p = Some s \<and> s \<noteq> [] \<and> CreateTaskInput.due_date p = Some d
      \<and> d \<noteq> []
     \<longrightarrow> map_of (create_task_data p) (lit ''due_string'') = Some (JStr s)
         \<and> map_of (create_task_data p) (lit ''due_date'') = None)
   \<and> (map_of (create_task_data p1) (lit ''due_date'') = Some v1
     \<longrightarrow> CreateTaskInput.due_string p1 \<in> {None, Some []}
         \<and> opt_str (CreateTaskInput.due_date p1) = v1)
   \<and> (\<forall>rq \<in> set (snd (todoist_create_task w p)). req_json rq = Some (create_task_data p))
   \<and> (UpdateTaskInput.due_string q = Some s' \<and> s' \<noteq> [] \<and> UpdateTaskInput.due_date q = Some d'
      \<and> d' \<noteq> []
     \<longrightarrow> map_of (update_task_data q) (lit ''due_string'') = Some (JStr s')
         \<and> map_of (update_task_data q) (lit ''due_date'') = None)
   \<and> (map_of (update_task_data q1) (lit ''due_date'') = Some v1'
     \<longrightarrow> UpdateTaskInput.due_string q1 \<in> {None, Some []}
         \<and> opt_str (UpdateTaskInput.due_date q1) = v1')
   \<and> (\<forall>rq \<in> set (snd (todoist_update_task w q)). req_json rq = Some (update_task_data q))"
proof (intro conjI ballI impI; (elim conjE)?)
  fix rq assume "rq \<in> set (snd (todoist_create_task w p))"
  then show "req_json rq = Some (create_task_data p)"
    using make_api_request_sent [of rq w "lit ''tasks''" "lit ''POST''"
            "Some (create_task_data p)" None]
    by (simp add: create_task_sent)
next
  fix rq assume "rq \<in> set (snd (todoist_update_task w q))"
  then show "req_json rq = Some (update_task_data q)"
    using make_api_request_sent [of rq w "lit ''tasks/'' @ UpdateTaskInput.task_id q"
            "lit ''POST''" "Some (update_task_data q)" None]
    by (simp add: update_task_sent split: if_splits)
qed (auto simp: create_task_due update_task_due opt_str_def split: option.splits if_splits)

theorem due_string_shadows_due_date_witness:
  "create_task_data (create_due (Some (lit ''tomorrow'')) (Some (lit ''2024-01-15'')))
     = [(lit ''content'', JStr (lit ''Buy milk'')), (lit ''due_string'', JStr (lit ''tomorrow''))]
   \<and> create_task_data (create_due None (Some (lit ''2024-01-15'')))
     = [(lit ''content'', JStr (lit ''Buy milk'')), (lit ''due_date'', JStr (lit ''2024-01-15''))]
   \<and> update_task_data (update_due (Some (lit ''tomorrow'')) (Some (lit ''2024-01-15'')))
     = [(lit ''due_string'', JStr (lit ''tomorrow''))]
   \<and> update_task_data (update_due (Some []) (Some (lit ''2024-01-15'')))
     = [(lit ''due_date'', JStr (lit ''2024-01-15''))]
   \<and> map_of (create_task_data (create_due (Some (lit ''tomorrow'')) (Some (lit ''2024-01-15''))))
        (lit ''due_date'') = None
   \<and> map_of (update_task_data (update_due (Some (lit ''tomorrow'')) (Some (lit ''2024-01-15''))))
        (lit ''due_date'') = None
   \<and> (\<exists>rq. snd (todoist_create_task (sample_world (Some (lit ''token'')) (replies 200 sample_task))
                (create_due (Some (lit ''tomorrow'')) (Some (lit ''2024-01-15'')))) = [rq]
         \<and> req_json rq = Some [(lit ''content'', JStr (lit ''Buy milk'')),
                               (lit ''due_string'', JStr (lit ''tomorrow''))])
   \<and> (\<exists>rq. snd (todoist_update_task (sample_world (Some (lit ''token'')) (replies 200 sample_task))
                (update_due (Some (lit ''tomorrow'')) (Some (lit ''2024-01-15'')))) = [rq]
         \<and> req_json rq = Some [(lit ''due_string'', JStr (lit ''tomorrow''))])"
proof -
  let ?w = "sample_world (Some (lit ''token'')) (replies 200 sample_task)"
  let ?p = "create_due (Some (lit ''tomorrow'')) (Some (lit ''2024-01-15''))"
  let ?p1 = "create_due None (Some (lit ''2024-01-15''))"
  let ?q = "update_due (Some (lit ''tomorrow'')) (Some (lit ''2024-01-15''))"
  let ?q1 = "update_due (Some []) (Some (lit ''2024-01-15''))"
  have tok: "environ ?w (lit ''TODOIST_API_TOKEN'') = Some (lit ''token'')" "lit ''token'' \<noteq> []"
    by (simp_all add: sample_world_def lit_def)
  have p: "CreateTaskInput.due_string ?p = Some (lit ''tomorrow'')" "lit ''tomorrow'' \<noteq> []"
      "CreateTaskInput.due_date ?p = Some (lit ''2024-01-15'')" "lit ''2024-01-15'' \<noteq> []"
    by (simp_all add: create_due_def lit_def)
  have q: "UpdateTaskInput.due_string ?q = Some (lit ''tomorrow'')"
      "UpdateTaskInput.due_date ?q = Some (lit ''2024-01-15'')"
    by (simp_all add: update_due_def update_nothing_def)
  have dp: "create_task_data ?p
      = [(lit ''content'', JStr (lit ''Buy milk'')), (lit ''due_string'', JStr (lit ''tomorrow''))]"
    using p(2) by (simp add: create_task_data_def create_due_def optional_defs)
  have dp1: "create_task_data ?p1
      = [(lit ''content'', JStr (lit ''Buy milk'')), (lit ''due_date'', JStr (lit ''2024-01-15''))]"
    using p(4) by (simp add: create_task_data_def create_due_def optional_defs)
  have dq: "update_task_data ?q = [(lit ''due_string'', JStr (lit ''tomorrow''))]"
    using p(2) by (simp add: update_task_data_def update_due_def update_nothing_def optional_defs)
  have dq1: "update_task_data ?q1 = [(lit ''due_date'', JStr (lit ''2024-01-15''))]"
    using p(4) by (simp add: update_task_data_def update_due_def update_nothing_def optional_defs)
  have sp: "snd (todoist_create_task ?w ?p) =
     [\<lparr>req_method = lit ''POST'', req_url = API_BASE_URL @ lit ''/'' @ lit ''tasks'',
       req_headers = [(lit ''Authorization'', lit ''Bearer '' @ lit ''token''),
                      (lit ''Content-Type'', lit ''application/json'')],
       req_json = Some (create_task_data ?p), req_params = None, req_timeout = 30\<rparr>]"
    using make_api_request_with_token [OF tok, of "lit ''tasks''" "lit ''POST''"
            "Some (create_task_data ?p)" None]
    by (simp add: create_task_sent)
  have sq: "snd (todoist_update_task ?w ?q) =
     [\<lparr>req_method = lit ''POST'',
       req_url = API_BASE_URL @ lit ''/'' @ lit ''tasks/'' @ UpdateTaskInput.task_id ?q,
       req_headers = [(lit ''Authorization'', lit ''Bearer '' @ lit ''token''),
                      (lit ''Content-Type'', lit ''application/json'')],
       req_json = Some (update_task_data ?q), req_params = None, req_timeout = 30\<rparr>]"
    using make_api_request_with_token [OF tok, of "lit ''tasks/'' @ UpdateTaskInput.task_id ?q"
            "lit ''POST''" "Some (update_task_data ?q)" None]
    by (simp add: update_task_sent dq)
  from due_string_shadows_due_date
         [of ?p "lit ''tomorrow''" "lit ''2024-01-15''" ?p1 "JStr (lit ''2024-01-15'')" ?w
             ?q "lit ''tomorrow''" "lit ''2024-01-15''" ?q1 "JStr (lit ''2024-01-15'')"]
       p q dp dp1 dq dq1 sp sq
  show ?thesis by simp
qed

subsection \<open>Validation of the update-task arguments\<close>

lemma strip_white_space:
  assumes "\<forall>c \<in> set s. white_space c"
  shows "strip s = []"
proof -
  from assms have dropped: "dropWhile white_space s = []"
    by simp
  show ?thesis unfolding strip_def dropped by simp
qed

lemma validate_update_task_fields:
  "validate_update_task a = Some p \<Longrightarrow>
   UpdateTaskInput.content p = map_option strip (raw_content a)
   \<and> UpdateTaskInput.description p = map_option strip (raw_description a)
   \<and> UpdateTaskInput.due_string p = map_option strip (raw_due_string a)
   \<and> UpdateTaskInput.due_date p = map_option strip (raw_due_date a)
   \<and> (UpdateTaskInput.priority p = None \<longleftrightarrow> raw_priority a = None)
   \<and> UpdateTaskInput.labels p = map_option (map strip) (raw_labels a)"
  by (auto simp: validate_update_task_def Let_def split: if_splits option.splits)

lemma update_task_data_blank:
  "UpdateTaskInput.content p \<in> {None, Some []} \<Longrightarrow> UpdateTaskInput.description p = None \<Longrightarrow>
   UpdateTaskInput.due_string p = None \<Longrightarrow> UpdateTaskInput.due_date p = None \<Longrightarrow>
   UpdateTaskInput.priority p = None \<Longrightarrow> UpdateTaskInput.labels p = None \<Longrightarrow>
   update_task_data p = []"
  by (auto simp: update_task_data_def optional_defs)

lemma update_task_rejected:
  "update_task_data p = [] \<Longrightarrow> todoist_update_task w p = (no_fields_to_update, [])"
  by (simp add: todoist_update_task_def update_task_try_def except_exception_def caught_def)

lemma truthy_opt_priority: "truthy (opt_priority v) \<longleftrightarrow> v \<noteq> None"
  by (cases v; cases "the v") (simp_all add: opt_priority_def)

lemma opt_not_null:
  "opt_str x \<noteq> JNull \<longleftrightarrow> x \<noteq> None" "opt_strs y \<noteq> JNull \<longleftrightarrow> y \<noteq> None"
  by (simp_all add: opt_str_def opt_strs_def split: option.splits)

lemma update_task_key_list:
  "map fst (update_task_data p) =
     (if truthy (opt_str (UpdateTaskInput.content p)) then [lit ''content''] else [])
     @ (if UpdateTaskInput.description p \<noteq> None then [lit ''description''] else [])
     @ (if truthy (opt_str (UpdateTaskInput.due_string p)) then [lit ''due_string'']
        else if truthy (opt_str (UpdateTaskInput.due_date p)) then [lit ''due_date''] else [])
     @ (if UpdateTaskInput.priority p \<noteq> None then [lit ''priority''] else [])
     @ (if UpdateTaskInput.labels p \<noteq> None then [lit ''labels''] else [])"
  by (simp add: update_task_data_def set_if_def truthy_opt_priority opt_not_null)

lemma update_key_neq:
  "lit ''content'' \<noteq> lit ''description''"
  "lit ''content'' \<noteq> lit ''due_string''"
  "lit ''content'' \<noteq> lit ''due_date''"
  "lit ''content'' \<noteq> lit ''priority''"
  "lit ''content'' \<noteq> lit ''labels''"
  "lit ''description'' \<noteq> lit ''content''"
  "lit ''description'' \<noteq> lit ''due_string''"
  "lit ''description'' \<noteq> lit ''due_date''"
  "lit ''description'' \<noteq> lit ''priority''"
  "lit ''description'' \<noteq> lit ''labels''"
  "lit ''due_string'' \<noteq> lit ''content''"
  "lit ''due_string'' \<noteq> lit ''description''"
  "lit ''due_string'' \<noteq> lit ''due_date''"
  "lit ''due_string'' \<noteq> lit ''priority''"
  "lit ''due_string'' \<noteq> lit ''labels''"
  "lit ''due_date'' \<noteq> lit ''content''"
  "lit ''due_date'' \<noteq> lit ''description''"
  "lit ''due_date'' \<noteq> lit ''due_string''"
  "lit ''due_date'' \<noteq> lit ''priority''"
  "lit ''due_date'' \<noteq> lit ''labels''"
  "lit ''priority'' \<noteq> lit ''content''"
  "lit ''priority'' \<noteq> lit ''description''"
  "lit ''priority'' \<noteq> lit ''due_string''"
  "lit ''priority'' \<noteq> lit ''due_date''"
  "lit ''priority'' \<noteq> lit ''labels''"
  "lit ''labels'' \<noteq> lit ''content''"
  "lit ''labels'' \<noteq> lit ''description''"
  "lit ''labels'' \<noteq> lit ''due_string''"
  "lit ''labels'' \<noteq> lit ''due_date''"
  "lit ''labels'' \<noteq> lit ''priority''"
  by (simp_all add: lit_def)

lemma update_task_keys:
  "lit ''content'' \<in> fst ` set (update_task_data p)
     \<longleftrightarrow> truthy (opt_str (UpdateTaskInput.content p))"
  "lit ''description'' \<in> fst ` set (update_task_data p)
     \<longleftrightarrow> UpdateTaskInput.description p \<noteq> None"
  "lit ''due_string'' \<in> fst ` set (update_task_data p)
     \<longleftrightarrow> truthy (opt_str (UpdateTaskInput.due_string p))"
  "lit ''due_date'' \<in> fst ` set (update_task_data p)
     \<longleftrightarrow> \<not> truthy (opt_str (UpdateTaskInput.due_string p))
         \<and> truthy (opt_str (UpdateTaskInput.due_date p))"
  "lit ''priority'' \<in> fst ` set (update_task_data p)
     \<longleftrightarrow> UpdateTaskInput.priority p \<noteq> None"
  "lit ''labels'' \<in> fst ` set (update_task_data p)
     \<longleftrightarrow> UpdateTaskInput.labels p \<noteq> None"
  unfolding set_map [symmetric] update_task_key_list
  by (simp_all add: update_key_neq)

text \<open>
  C10. Update-task treats its optional fields in two ways. A \<open>description\<close> or \<open>labels\<close>
  that is not \<open>None\<close> is put into the body, also when it is the empty string or the empty
  list; the diff is then not empty, and with a credential in the environment the request is
  sent with that body. \<open>content\<close>, \<open>due_string\<close> and \<open>due_date\<close> are left out when \<open>None\<close> or
  empty, and \<open>priority\<close> when \<open>None\<close> (a priority that is given is never falsy). So an
  invocation that supplies only an empty content, or only a content of white space, which
  validation strips to the empty string, is rejected with the \<open>no_fields_to_update\<close>
  message and sends nothing, while one that supplies only an empty description has the body
  \<open>{description: ""}\<close> and sends it.
\<close>

theorem update_task_asymmetry:
  "(UpdateTaskInput.description p = Some d \<longrightarrow>
      (lit ''description'', JStr d) \<in> set (update_task_data p))
   \<and> (UpdateTaskInput.labels p' = Some ls \<longrightarrow>
      (lit ''labels'', JList (map JStr ls)) \<in> set (update_task_data p'))
   \<and> (UpdateTaskInput.content p1 \<in> {None, Some []} \<longrightarrow>
      lit ''content'' \<notin> fst ` set (update_task_data p1))
   \<and> (UpdateTaskInput.due_string p2 \<in> {None, Some []} \<longrightarrow>
      lit ''due_string'' \<notin> fst ` set (update_task_data p2))
   \<and> (UpdateTaskInput.due_date p3 \<in> {None, Some []} \<longrightarrow>
      lit ''due_date'' \<notin> fst ` set (update_task_data p3))
   \<and> (UpdateTaskInput.priority p4 = None \<longrightarrow>
      lit ''priority'' \<notin> fst ` set (update_task_data p4))
   \<and> (UpdateTaskInput.content p5 = Some [] \<and> UpdateTaskInput.description p5 = None
       \<and> UpdateTaskInput.due_string p5 = None \<and> UpdateTaskInput.due_date p5 = None
       \<and> UpdateTaskInput.priority p5 = None \<and> UpdateTaskInput.labels p5 = None
      \<longrightarrow> todoist_update_task w p5 = (no_fields_to_update, []))
   \<and> (raw_content a = Some c \<and> (\<forall>x \<in> set c. white_space x) \<and> raw_description a = None
       \<and> raw_due_string a = None \<and> raw_due_date a = None \<and> raw_priority a = None
       \<and> raw_labels a = None \<and> validate_update_task a = Some p6
      \<longrightarrow> UpdateTaskInput.content p6 = Some []
          \<and> todoist_update_task w p6 = (no_fields_to_update, []))
   \<and> (UpdateTaskInput.description p7 = Some [] \<and> UpdateTaskInput.content p7 = None
       \<and> UpdateTaskInput.due_string p7 = None \<and> UpdateTaskInput.due_date p7 = None
       \<and> UpdateTaskInput.priority p7 = None \<and> UpdateTaskInput.labels p7 = None
      \<longrightarrow> update_task_data p7 = [(lit ''description'', JStr [])])
   \<and> ((UpdateTaskInput.description p8 \<noteq> None \<or> UpdateTaskInput.labels p8 \<noteq> None)
       \<and> environ w (lit ''TODOIST_API_TOKEN'') = Some tok \<and> tok \<noteq> []
      \<longrightarrow> update_task_data p8 \<noteq> []
          \<and> snd (todoist_update_task w p8) =
              [\<lparr>req_method = lit ''POST'',
                req_url = API_BASE_URL @ lit ''/'' @ lit ''tasks/'' @ UpdateTaskInput.task_id p8,
                req_headers = [(lit ''Authorization'', lit ''Bearer '' @ tok),
                               (lit ''Content-Type'', lit ''application/json'')],
                req_json = Some (update_task_data p8), req_params = None,
                req_timeout = 30\<rparr>])"
proof (intro conjI impI; (elim conjE)?)
  assume "UpdateTaskInput.description p = Some d"
  then show "(lit ''description'', JStr d) \<in> set (update_task_data p)"
    by (simp add: update_task_data_def optional_defs)
next
  assume "UpdateTaskInput.labels p' = Some ls"
  then show "(lit ''labels'', JList (map JStr ls)) \<in> set (update_task_data p')"
    by (simp add: update_task_data_def optional_defs)
next
  assume "UpdateTaskInput.content p1 \<in> {None, Some []}"
  then show "lit ''content'' \<notin> fst ` set (update_task_data p1)"
    by (auto simp: update_task_keys opt_str_def)
next
  assume "UpdateTaskInput.due_string p2 \<in> {None, Some []}"
  then show "lit ''due_string'' \<notin> fst ` set (update_task_data p2)"
    by (auto simp: update_task_keys opt_str_def)
next
  assume "UpdateTaskInput.due_date p3 \<in> {None, Some []}"
  then show "lit ''due_date'' \<notin> fst ` set (update_task_data p3)"
    by (auto simp: update_task_keys opt_str_def)
next
  assume "UpdateTaskInput.priority p4 = None"
  then show "lit ''priority'' \<notin> fst ` set (update_task_data p4)"
    by (simp add: update_task_keys)
next
  assume "UpdateTaskInput.content p5 = Some []" "UpdateTaskInput.description p5 = None"
    "UpdateTaskInput.due_string p5 = None" "UpdateTaskInput.due_date p5 = None"
    "UpdateTaskInput.priority p5 = None" "UpdateTaskInput.labels p5 = None"
  then show "todoist_update_task w p5 = (no_fields_to_update, [])"
    by (intro update_task_rejected update_task_data_blank) simp_all
next
  assume raw: "raw_content a = Some c" "\<forall>x \<in> set c. white_space x" "raw_description a = None"
    "raw_due_string a = None" "raw_due_date a = None" "raw_priority a = None"
    "raw_labels a = None" and ok: "validate_update_task a = Some p6"
  from validate_update_task_fields [OF ok] raw strip_white_space [of c]
  have fields: "UpdateTaskInput.content p6 = Some []" "UpdateTaskInput.description p6 = None"
    "UpdateTaskInput.due_string p6 = None" "UpdateTaskInput.due_date p6 = None"
    "UpdateTaskInput.priority p6 = None" "UpdateTaskInput.labels p6 = None"
    by simp_all
  show "UpdateTaskInput.content p6 = Some []" by (rule fields)
  from fields show "todoist_update_task w p6 = (no_fields_to_update, [])"
    by (intro update_task_rejected update_task_data_blank) simp_all
next
  assume "UpdateTaskInput.description p7 = Some []" "UpdateTaskInput.content p7 = None"
    "UpdateTaskInput.due_string p7 = None" "UpdateTaskInput.due_date p7 = None"
    "UpdateTaskInput.priority p7 = None" "UpdateTaskInput.labels p7 = None"
  then show "update_task_data p7 = [(lit ''description'', JStr [])]"
    by (simp add: update_task_data_def optional_defs)
next
  assume given: "UpdateTaskInput.description p8 \<noteq> None \<or> UpdateTaskInput.labels p8 \<noteq> None"
    and tok: "environ w (lit ''TODOIST_API_TOKEN'') = Some tok" "tok \<noteq> []"
  from given have "fst ` set (update_task_data p8) \<noteq> {}"
    using update_task_keys(2) [of p8] update_task_keys(6) [of p8] by auto
  then show ne: "update_task_data p8 \<noteq> []" by auto
  show "snd (todoist_update_task w p8) =
              [\<lparr>req_method = lit ''POST'',
                req_url = API_BASE_URL @ lit ''/'' @ lit ''tasks/'' @ UpdateTaskInput.task_id p8,
                req_headers = [(lit ''Authorization'', lit ''Bearer '' @ tok),
                               (lit ''Content-Type'', lit ''application/json'')],
                req_json = Some (update_task_data p8), req_params = None,
                req_timeout = 30\<rparr>]"
    using make_api_request_with_token [OF tok, of "lit ''tasks/'' @ UpdateTaskInput.task_id p8"
            "lit ''POST''" "Some (update_task_data p8)" None]
    by (simp add: update_task_sent ne)
qed

theorem update_task_asymmetry_witness:
  "validate_update_task (update_task_args (Some (lit ''   '')) None) = Some (update_content [])
   \<and> todoist_update_task (sample_world (Some (lit ''token'')) (replies 200 sample_task))
        (update_content []) = (no_fields_to_update, [])
   \<and> update_task_data (update_description []) = [(lit ''description'', JStr [])]
   \<and> snd (todoist_update_task (sample_world (Some (lit ''token'')) (replies 200 sample_task))
             (update_description []))
       = [\<lparr>req_method = lit ''POST'',
           req_url = lit ''https://api.todoist.com/rest/v2/tasks/101'',
           req_headers = [(lit ''Authorization'', lit ''Bearer token''),
                          (lit ''Content-Type'', lit ''application/json'')],
           req_json = Some [(lit ''description'', JStr [])], req_params = None,
           req_timeout = 30\<rparr>]
   \<and> lit ''content'' \<notin> fst ` set (update_task_data (update_content []))
   \<and> (lit ''description'', JStr []) \<in> set (update_task_data (update_description []))"
proof -
  let ?w = "sample_world (Some (lit ''token'')) (replies 200 sample_task)"
  let ?a = "update_task_args (Some (lit ''   '')) None"
  have tok: "environ ?w (lit ''TODOIST_API_TOKEN'') = Some (lit ''token'')" "lit ''token'' \<noteq> []"
    by (simp_all add: sample_world_def lit_def)
  have ws: "\<forall>x \<in> set (lit ''   ''). white_space x"
    by (simp add: lit_def white_space_def)
  have "strip (lit ''   '') = []" "strip (lit ''101'') = lit ''101''" "lit ''101'' \<noteq> []"
    by (simp_all add: strip_def lit_def white_space_def)
  then have ok: "validate_update_task ?a = Some (update_content [])"
    by (simp add: validate_update_task_def update_task_args_def update_content_def
        update_nothing_def max_length_def Let_def)
  have raw: "raw_content ?a = Some (lit ''   '')" "raw_description ?a = None"
    "raw_due_string ?a = None" "raw_due_date ?a = None" "raw_priority ?a = None"
    "raw_labels ?a = None"
    by (simp_all add: update_task_args_def)
  have c: "UpdateTaskInput.content (update_content []) = Some []"
    "UpdateTaskInput.description (update_content []) = None"
    "UpdateTaskInput.due_string (update_content []) = None"
    "UpdateTaskInput.due_date (update_content []) = None"
    "UpdateTaskInput.priority (update_content []) = None"
    "UpdateTaskInput.labels (update_content []) = None"
    by (simp_all add: update_content_def update_nothing_def)
  have d: "UpdateTaskInput.description (update_description []) = Some []"
    "UpdateTaskInput.content (update_description []) = None"
    "UpdateTaskInput.due_string (update_description []) = None"
    "UpdateTaskInput.due_date (update_description []) = None"
    "UpdateTaskInput.priority (update_description []) = None"
    "UpdateTaskInput.labels (update_description []) = None"
    "UpdateTaskInput.task_id (update_description []) = lit ''101''"
    by (simp_all add: update_description_def update_nothing_def)
  from update_task_asymmetry
         [of "update_description []" "[]" _ _ "update_content []" _ _ _ "update_content []" ?w
             ?a "lit ''   ''" "update_content []" "update_description []"
             "update_description []" "lit ''token''"]
       tok ws ok raw c d
  show ?thesis by (simp add: API_BASE_URL_def lit_def)
qed

subsection \<open>The list of tasks\<close>

lemma render_tasks_empty:
  "\<not> truthy tasks \<Longrightarrow>
   render_tasks w fmt lim tasks = Inr (lit ''No tasks found matching your criteria.'')"
  by (simp add: render_tasks_def)

lemma render_tasks_json:
  "ts \<noteq> [] \<Longrightarrow> 0 \<le> lim \<Longrightarrow>
   render_tasks w JSON lim (JList ts) = Inr (json_dumps w (JList (take (nat lim) ts)))"
  by (simp add: render_tasks_def py_slice_to_def slice_to_def)

lemma render_tasks_markdown:
  "ts \<noteq> [] \<Longrightarrow> 0 \<le> lim \<Longrightarrow>
   render_tasks w MARKDOWN lim (JList ts) =
     then_do (collect (task_lines w) (take (nat lim) ts)) (\<lambda>body.
       Inr (truncate_response
              (join nl ([lit ''# Todoist Tasks'',
                         lit ''*Showing '' @ str_nat (length (take (nat lim) ts)) @ lit '' tasks*'',
                         []] @ body))
              (length (take (nat lim) ts))))"
  by (simp add: render_tasks_def py_slice_to_def slice_to_def py_len_def py_iter_def)

lemma render_tasks_sliced:
  assumes "ts \<noteq> []" "1 \<le> lim"
  shows "render_tasks w fmt lim (JList ts) = render_tasks w fmt lim (JList (take (nat lim) ts))"
proof -
  from assms have "take (nat lim) ts \<noteq> []" by (cases ts) (auto simp: take_Cons')
  with assms show ?thesis
    by (cases fmt) (simp_all add: render_tasks_json render_tasks_markdown)
qed

lemma list_tasks_output:
  "fst (make_api_request w (lit ''tasks'') (lit ''GET'') None (Some (list_tasks_query p))) = Inr v
   \<Longrightarrow> fst (todoist_list_tasks w p)
         = caught (render_tasks w (ListTasksInput.response_format p) (limit p) v)"
  by (simp add: todoist_list_tasks_def list_tasks_try_def except_exception_def case_prod_beta)

text \<open>
  C7. Validation admits a limit only in the range 1 to 200 and puts 50 where none is given.
  When the remote service returns a non-empty list of tasks, list-tasks renders, in either
  mode, the first \<open>limit\<close> elements of it and nothing else: the JSON mode dumps that prefix,
  the markdown mode counts the tasks of that prefix in its heading and has the lines of
  exactly those tasks, and the output is the same as for the prefix alone; the prefix has
  at most \<open>limit\<close> elements. An empty list (as any empty result) gives the fixed sentence
  \<open>No tasks found matching your criteria.\<close>
\<close>

theorem list_tasks_limit:
  "(validate_list_tasks a = Some p \<longrightarrow>
      1 \<le> limit p \<and> limit p \<le> 200 \<and> limit p = (case raw_limit a of None \<Rightarrow> 50 | Some n \<Rightarrow> n))
   \<and> (raw_limit a' = Some n' \<and> (n' < 1 \<or> 200 < n') \<longrightarrow> validate_list_tasks a' = None)
   \<and> (ts \<noteq> [] \<and> 1 \<le> lim \<longrightarrow>
        length (take (nat lim) ts) \<le> nat lim
        \<and> render_tasks w fmt lim (JList ts) = render_tasks w fmt lim (JList (take (nat lim) ts))
        \<and> render_tasks w JSON lim (JList ts) = Inr (json_dumps w (JList (take (nat lim) ts)))
        \<and> render_tasks w MARKDOWN lim (JList ts) =
            then_do (collect (task_lines w) (take (nat lim) ts)) (\<lambda>body.
              Inr (truncate_response
                     (join nl ([lit ''# Todoist Tasks'',
                                lit ''*Showing '' @ str_nat (length (take (nat lim) ts))
                                @ lit '' tasks*'',
                                []] @ body))
                     (length (take (nat lim) ts)))))
   \<and> render_tasks w fmt lim (JList []) = Inr (lit ''No tasks found matching your criteria.'')
   \<and> render_tasks w fmt lim JNull = Inr (lit ''No tasks found matching your criteria.'')
   \<and> (fst (make_api_request w (lit ''tasks'') (lit ''GET'') None (Some (list_tasks_query q)))
         = Inr v
      \<longrightarrow> fst (todoist_list_tasks w q)
            = caught (render_tasks w (ListTasksInput.response_format q) (limit q) v))"
proof (intro conjI impI; (elim conjE)?)
  assume "validate_list_tasks a = Some p"
  then show "1 \<le> limit p" "limit p \<le> 200"
    "limit p = (case raw_limit a of None \<Rightarrow> 50 | Some n \<Rightarrow> n)"
    by (auto simp: validate_list_tasks_def Let_def split: if_splits option.splits)
next
  assume "raw_limit a' = Some n'" "n' < 1 \<or> 200 < n'"
  then show "validate_list_tasks a' = None"
    by (auto simp: validate_list_tasks_def)
next
  assume "ts \<noteq> []" "1 \<le> lim"
  then show "render_tasks w fmt lim (JList ts) = render_tasks w fmt lim (JList (take (nat lim) ts))"
    by (rule render_tasks_sliced)
next
  assume "fst (make_api_request w (lit ''tasks'') (lit ''GET'') None (Some (list_tasks_query q)))
            = Inr v"
  then show "fst (todoist_list_tasks w q)
            = caught (render_tasks w (ListTasksInput.response_format q) (limit q) v)"
    by (rule list_tasks_output)
qed (simp_all add: render_tasks_empty render_tasks_json render_tasks_markdown)

theorem list_tasks_limit_witness:
  "validate_list_tasks (list_tasks_args None)
     = Some \<lparr>ListTasksInput.project_id = None, label = None, filter_query = None, limit = 50,
             response_format = MARKDOWN\<rparr>
   \<and> validate_list_tasks (list_tasks_args (Some 201)) = None
   \<and> fst (todoist_list_tasks
            (sample_world (Some (lit ''token'')) (replies 200 (JList [brief_task, sample_task])))
            \<lparr>ListTasksInput.project_id = None, label = None, filter_query = None, limit = 1,
             response_format = MARKDOWN\<rparr>)
       = join nl [lit ''# Todoist Tasks'',
                  lit ''*Showing 1 tasks*'',
                  [],
                  lit ''###  Call Sam'',
                  lit ''- **ID**: '' @ backtick @ lit ''102'' @ backtick,
                  lit ''- **Due**: No due date'',
                  lit ''- **Priority**: P4 (lowest)'',
                  lit ''- **Labels**: none'',
                  lit ''- **Description**: before noon'',
                  []]"
proof -
  let ?w = "sample_world (Some (lit ''token'')) (replies 200 (JList [brief_task, sample_task]))"
  let ?q = "\<lparr>ListTasksInput.project_id = None, label = None, filter_query = None, limit = 1,
             response_format = MARKDOWN\<rparr>"
  let ?p = "\<lparr>ListTasksInput.project_id = None, label = None, filter_query = None, limit = 50,
             response_format = MARKDOWN\<rparr>"
  have ok: "validate_list_tasks (list_tasks_args None) = Some ?p"
    by (simp add: validate_list_tasks_def list_tasks_args_def)
  have bad: "raw_limit (list_tasks_args (Some 201)) = Some 201" "(201 :: int) < 1 \<or> 200 < (201 :: int)"
    by (simp_all add: list_tasks_args_def)
  have ts: "[brief_task, sample_task] \<noteq> []" "(1 :: int) \<le> 1"
    by simp_all
  have remote:
    "fst (make_api_request ?w (lit ''tasks'') (lit ''GET'') None (Some (list_tasks_query ?q)))
       = Inr (JList [brief_task, sample_task])"
    by (simp add: make_api_request_def get_api_token_def sample_world_def replies_def
        is_success_def Let_def lit_def)
  have one: "str_nat (Suc 0) = lit ''1''"
    by (simp add: str_nat.simps lit_def)
  have render:
    "render_tasks ?w MARKDOWN 1 (JList [brief_task, sample_task])
       = Inr (join nl [lit ''# Todoist Tasks'',
                  lit ''*Showing 1 tasks*'',
                  [],
                  lit ''###  Call Sam'',
                  lit ''- **ID**: '' @ backtick @ lit ''102'' @ backtick,
                  lit ''- **Due**: No due date'',
                  lit ''- **Priority**: P4 (lowest)'',
                  lit ''- **Labels**: none'',
                  lit ''- **Description**: before noon'',
                  []])"
    by (simp add: render_tasks_markdown brief_task_lines one truncate_response_def
        CHARACTER_LIMIT_def nl_def backtick_def lit_def)
  from list_tasks_limit
         [of "list_tasks_args None" ?p "list_tasks_args (Some 201)" 201
             "[brief_task, sample_task]" 1 ?w MARKDOWN ?q "JList [brief_task, sample_task]"]
       ok bad ts remote
  have out: "fst (todoist_list_tasks ?w ?q)
          = caught (render_tasks ?w (ListTasksInput.response_format ?q) (limit ?q)
                      (JList [brief_task, sample_task]))"
    and rejected: "validate_list_tasks (list_tasks_args (Some 201)) = None"
    by blast+
  from out render ok rejected show ?thesis
    by (simp add: caught_def)
qed

subsection \<open>Truncation\<close>

lemma length_str_nat: "0 < k \<Longrightarrow> n < 10 ^ k \<Longrightarrow> length (str_nat n) \<le> k"
proof (induction n arbitrary: k rule: str_nat.induct)
  case (1 n)
  show ?case
  proof (cases "n < 10")
    case True
    with "1.prems" show ?thesis by (simp add: str_nat.simps [of n])
  next
    case False
    with "1.prems" have "k \<noteq> 1" by auto
    with "1.prems" obtain j where j: "k = Suc j" "0 < j" by (cases k) auto
    from "1.prems" j have "n div 10 < 10 ^ j"
      by (simp add: less_mult_imp_div_less mult.commute)
    with "1.IH" [OF False j(2)] have "length (str_nat (n div 10)) \<le> j" by simp
    with False j show ?thesis by (simp add: str_nat.simps [of n])
  qed
qed

lemma length_truncation_notice: "length (truncation_notice n) = 69 + length (str_nat n)"
  by (simp add: truncation_notice_def nl_def)

lemma truncate_response_short:
  "length result \<le> CHARACTER_LIMIT \<Longrightarrow> truncate_response result n = result"
  by (simp add: truncate_response_def)

lemma truncate_response_long:
  "CHARACTER_LIMIT < length result \<Longrightarrow>
   truncate_response result n = take 24800 result @ truncation_notice n"
  by (simp add: truncate_response_def CHARACTER_LIMIT_def)

text \<open>
  The notice has 69 characters besides the digits of the count, so the cut string stays
  within the limit for any count of up to 131 digits.
\<close>

lemma truncate_response_bound:
  assumes "n < 10 ^ 131"
  shows "length (truncate_response result n) \<le> CHARACTER_LIMIT"
proof (cases "CHARACTER_LIMIT < length result")
  case True
  from assms have "length (str_nat n) \<le> 131" by (intro length_str_nat) simp_all
  with True show ?thesis
    by (simp add: truncate_response_long length_truncation_notice CHARACTER_LIMIT_def)
next
  case False
  then show ?thesis by (simp add: truncate_response_short)
qed

lemma truncate_response_notice:
  "CHARACTER_LIMIT < length result \<Longrightarrow>
   suffix (truncation_notice n) (truncate_response result n)"
  by (simp add: truncate_response_long suffixI)

text \<open>The two sibling list views pass their markdown through \<open>truncate_response\<close>.\<close>

lemma render_projects_truncated:
  "truthy projects \<Longrightarrow> render_projects w MARKDOWN projects = Inr out \<Longrightarrow>
   \<exists>rendered n. py_len projects = Inr n \<and> out = truncate_response rendered n"
  by (auto simp: render_projects_def then_do_Inr)

lemma render_tasks_truncated:
  "truthy tasks \<Longrightarrow> render_tasks w MARKDOWN lim tasks = Inr out \<Longrightarrow>
   \<exists>rendered shown n. py_slice_to tasks lim = Inr shown \<and> py_len shown = Inr n
     \<and> out = truncate_response rendered n"
  by (auto simp: render_tasks_def then_do_Inr)

text \<open>The list of labels is joined and returned as it is.\<close>

lemma render_labels_joined:
  "truthy labs \<Longrightarrow> render_labels w MARKDOWN labs = Inr out \<Longrightarrow>
   \<exists>ls body. py_iter labs = Inr ls \<and> collect (label_line w) ls = Inr body
     \<and> out = join nl ([lit ''# Todoist Labels'', []] @ body)"
  by (auto simp: render_labels_def then_do_Inr)

lemma long_label_output:
  "fst (todoist_list_labels (sample_world (Some (lit ''token'')) (replies 200 (JList [long_label])))
          markdown_labels)
     = lit ''# Todoist Labels'' @ nl @ nl @ lit ''- **'' @ long_text 25000 @ lit ''** (ID: ''
       @ backtick @ lit ''7'' @ backtick @ lit '', color: default)''"
proof -
  have "fst (todoist_list_labels
               (sample_world (Some (lit ''token'')) (replies 200 (JList [long_label])))
               markdown_labels)
        = caught (render_labels
                    (sample_world (Some (lit ''token'')) (replies 200 (JList [long_label])))
                    MARKDOWN (JList [long_label]))"
    by (simp add: todoist_list_labels_def list_labels_try_def except_exception_def
        make_api_request_def get_api_token_def sample_world_def replies_def is_success_def
        markdown_labels_def Let_def lit_def)
  also have "\<dots> = lit ''# Todoist Labels'' @ nl @ nl @ lit ''- **'' @ long_text 25000
       @ lit ''** (ID: '' @ backtick @ lit ''7'' @ backtick @ lit '', color: default)''"
    by (simp add: render_labels_def caught_def py_iter_def long_label_def label_line_def
        py_get_def py_get_default_def py_getitem_def py_str_def lit_def)
  finally show ?thesis .
qed

lemma long_label_as_project:
  "fst (todoist_list_projects
          (sample_world (Some (lit ''token'')) (replies 200 (JList [long_label])))
          markdown_projects)
     = truncate_response
         (lit ''# Todoist Projects'' @ nl @ nl @ lit ''- **'' @ long_text 25000
          @ lit ''** (ID: '' @ backtick @ lit ''7'' @ backtick @ lit '')'') 1"
proof -
  have "fst (todoist_list_projects
               (sample_world (Some (lit ''token'')) (replies 200 (JList [long_label])))
               markdown_projects)
        = caught (render_projects
                    (sample_world (Some (lit ''token'')) (replies 200 (JList [long_label])))
                    MARKDOWN (JList [long_label]))"
    by (simp add: todoist_list_projects_def list_projects_try_def except_exception_def
        make_api_request_def get_api_token_def sample_world_def replies_def is_success_def
        markdown_projects_def Let_def lit_def)
  also have "\<dots> = truncate_response
         (lit ''# Todoist Projects'' @ nl @ nl @ lit ''- **'' @ long_text 25000
          @ lit ''** (ID: '' @ backtick @ lit ''7'' @ backtick @ lit '')'') 1"
    by (simp add: render_projects_def caught_def py_iter_def py_len_def long_label_def
        project_lines_def py_get_def py_get_default_def py_getitem_def py_str_def lit_def)
  finally show ?thesis .
qed

text \<open>
  C1. Every markdown list output longer than 25,000 characters is claimed to be cut at
  24,800 characters and closed by the truncation notice. The lists of projects and of
  tasks are; the list of labels is not passed through \<open>truncate_response\<close>. When the remote
  service returns one label whose name has 25,000 characters, list-labels returns all
  25,050 characters of its markdown, with no notice at the end, while list-projects on the
  same reply returns 24,800 characters followed by the notice, within the limit.
\<close>

theorem list_labels_not_truncated:
  "fst (todoist_list_labels (sample_world (Some (lit ''token'')) (replies 200 (JList [long_label])))
          markdown_labels)
     = lit ''# Todoist Labels'' @ nl @ nl @ lit ''- **'' @ long_text 25000 @ lit ''** (ID: ''
       @ backtick @ lit ''7'' @ backtick @ lit '', color: default)''
   \<and> length (fst (todoist_list_labels
                    (sample_world (Some (lit ''token'')) (replies 200 (JList [long_label])))
                    markdown_labels)) = 25050
   \<and> CHARACTER_LIMIT
       < length (fst (todoist_list_labels
                        (sample_world (Some (lit ''token'')) (replies 200 (JList [long_label])))
                        markdown_labels))
   \<and> \<not> suffix (truncation_notice 1)
         (fst (todoist_list_labels
                 (sample_world (Some (lit ''token'')) (replies 200 (JList [long_label])))
                 markdown_labels))
   \<and> length (fst (todoist_list_projects
                    (sample_world (Some (lit ''token'')) (replies 200 (JList [long_label])))
                    markdown_projects)) \<le> CHARACTER_LIMIT
   \<and> suffix (truncation_notice 1)
       (fst (todoist_list_projects
               (sample_world (Some (lit ''token'')) (replies 200 (JList [long_label])))
               markdown_projects))"
proof (intro conjI)
  let ?labels = "fst (todoist_list_labels
                    (sample_world (Some (lit ''token'')) (replies 200 (JList [long_label])))
                    markdown_labels)"
  let ?projects = "fst (todoist_list_projects
                    (sample_world (Some (lit ''token'')) (replies 200 (JList [long_label])))
                    markdown_projects)"
  show "?labels = lit ''# Todoist Labels'' @ nl @ nl @ lit ''- **'' @ long_text 25000
       @ lit ''** (ID: '' @ backtick @ lit ''7'' @ backtick @ lit '', color: default)''"
    by (rule long_label_output)
  show len: "length ?labels = 25050"
    by (simp add: long_label_output nl_def backtick_def)
  then show "CHARACTER_LIMIT < length ?labels"
    by (simp add: CHARACTER_LIMIT_def)
  have "last ?labels = 41"
    unfolding long_label_output by (simp add: lit_def)
  moreover have "last (truncation_notice 1) = 46"
    by (simp add: truncation_notice_def lit_def)
  moreover have "?labels \<noteq> []" "truncation_notice 1 \<noteq> []"
    using len by (auto simp: truncation_notice_def nl_def)
  ultimately show "\<not> suffix (truncation_notice 1) ?labels"
    by (auto simp: suffix_def)
  show "length ?projects \<le> CHARACTER_LIMIT"
    unfolding long_label_as_project by (rule truncate_response_bound) simp
  show "suffix (truncation_notice 1) ?projects"
    unfolding long_label_as_project
    by (rule truncate_response_notice) (simp add: CHARACTER_LIMIT_def nl_def backtick_def)
qed

end
